theory Spec2Isabelle
  imports Main
begin

section \<open>Python strings\<close>

text \<open>
  Strings are lists of 8-bit characters, so the model covers the code points 0 to 255.
  \<open>isspace\<close> is Python's \<^verbatim>\<open>str.isspace\<close> on that range: tab to carriage return,
  the separators 28 to 31, the space, NEL (133) and the no-break space (160).
  \<open>str_lower\<close> is \<^verbatim>\<open>str.lower\<close>: it maps the letters A to Z and the Latin-1 capitals 192
  to 222 (not the sign 215) to the letter 32 places on. \<^verbatim>\<open>str.upper\<close> leaves the range:
  the micro sign 181 becomes the code point 924, the sharp s 223 becomes \<^verbatim>\<open>SS\<close> and the
  letter 255 becomes 376. So \<open>str_upper\<close> gives the code points of the result, and
  \<open>codes\<close> those of a string to compare it with.
\<close>

definition isspace :: "char \<Rightarrow> bool" where
  "isspace c =
     (let n = (of_char c :: nat)
      in (9 \<le> n \<and> n \<le> 13) \<or> (28 \<le> n \<and> n \<le> 32) \<or> n = 133 \<or> n = 160)"

definition str_strip :: "string \<Rightarrow> string" where
  "str_strip s = rev (dropWhile isspace (rev (dropWhile isspace s)))"

definition codes :: "string \<Rightarrow> nat list" where
  "codes s = map of_char s"

definition upper_codes :: "char \<Rightarrow> nat list" where
  "upper_codes c =
     (let n = (of_char c :: nat)
      in if 97 \<le> n \<and> n \<le> 122 then [n - 32]
         else if n = 181 then [924]
         else if n = 223 then [83, 83]
         else if 224 \<le> n \<and> n \<le> 254 \<and> n \<noteq> 247 then [n - 32]
         else if n = 255 then [376]
         else [n])"

definition str_upper :: "string \<Rightarrow> nat list" where
  "str_upper s = concat (map upper_codes s)"

definition latin1_upper :: string where
  "latin1_upper =
     [CHR 0xC0, CHR 0xC1, CHR 0xC2, CHR 0xC3, CHR 0xC4, CHR 0xC5, CHR 0xC6, CHR 0xC7,
      CHR 0xC8, CHR 0xC9, CHR 0xCA, CHR 0xCB, CHR 0xCC, CHR 0xCD, CHR 0xCE, CHR 0xCF,
      CHR 0xD0, CHR 0xD1, CHR 0xD2, CHR 0xD3, CHR 0xD4, CHR 0xD5, CHR 0xD6,
      CHR 0xD8, CHR 0xD9, CHR 0xDA, CHR 0xDB, CHR 0xDC, CHR 0xDD, CHR 0xDE]"

definition latin1_lower :: string where
  "latin1_lower =
     [CHR 0xE0, CHR 0xE1, CHR 0xE2, CHR 0xE3, CHR 0xE4, CHR 0xE5, CHR 0xE6, CHR 0xE7,
      CHR 0xE8, CHR 0xE9, CHR 0xEA, CHR 0xEB, CHR 0xEC, CHR 0xED, CHR 0xEE, CHR 0xEF,
      CHR 0xF0, CHR 0xF1, CHR 0xF2, CHR 0xF3, CHR 0xF4, CHR 0xF5, CHR 0xF6,
      CHR 0xF8, CHR 0xF9, CHR 0xFA, CHR 0xFB, CHR 0xFC, CHR 0xFD, CHR 0xFE]"

definition lower_char :: "char \<Rightarrow> char" where
  "lower_char c =
     (case map_of (zip (''ABCDEFGHIJKLMNOPQRSTUVWXYZ'' @ latin1_upper)
                       (''abcdefghijklmnopqrstuvwxyz'' @ latin1_lower)) c of
        None \<Rightarrow> c
      | Some l \<Rightarrow> l)"

definition str_lower :: "string \<Rightarrow> string" where
  "str_lower s = map lower_char s"

text \<open>\<^verbatim>\<open>s.split(c)\<close>: the pieces between the occurrences of \<open>c\<close>; never an empty list.\<close>

fun str_split :: "char \<Rightarrow> string \<Rightarrow> string list" where
  "str_split c [] = [[]]"
| "str_split c (x # xs) =
     (if x = c then [] # str_split c xs
      else (x # hd (str_split c xs)) # tl (str_split c xs))"

text \<open>\<^verbatim>\<open>s.split(c, 1)\<close> on a string that contains \<open>c\<close>: the text before the first
  \<open>c\<close> and the text after it.\<close>

definition split_once :: "char \<Rightarrow> string \<Rightarrow> string \<times> string" where
  "split_once c s = (takeWhile (\<lambda>x. x \<noteq> c) s, drop 1 (dropWhile (\<lambda>x. x \<noteq> c) s))"

text \<open>\<^verbatim>\<open>s.startswith(p)\<close> and \<^verbatim>\<open>p in s\<close> for strings, and for their code points.\<close>

fun startswith :: "'a list \<Rightarrow> 'a list \<Rightarrow> bool" where
  "startswith s [] = True"
| "startswith [] (p # ps) = False"
| "startswith (x # xs) (p # ps) = (x = p \<and> startswith xs ps)"

fun str_contains :: "'a list \<Rightarrow> 'a list \<Rightarrow> bool" where
  "str_contains [] p = (p = [])"
| "str_contains (x # xs) p = (startswith (x # xs) p \<or> str_contains xs p)"

text \<open>\<^verbatim>\<open>str(n)\<close> for a non-negative integer.\<close>

fun str_of_nat :: "nat \<Rightarrow> string" where
  "str_of_nat n =
     (if n < 10 then [''0123456789'' ! n]
      else str_of_nat (n div 10) @ [''0123456789'' ! (n mod 10)])"

declare str_of_nat.simps [simp del]

section \<open>JSON values\<close>

text \<open>
  A parsed JSON document or a Python literal sent as JSON. An object is an association
  list in insertion order; \<open>dict_get\<close> is \<^verbatim>\<open>d.get(k, default)\<close>. Numbers are integers:
  the identifiers, sizes and counts these scripts read and send are integral.
\<close>

datatype json =
    JNull
  | JBool bool
  | JInt int
  | JStr string
  | JList "json list"
  | JObj "(string \<times> json) list"

definition dict_get :: "(string \<times> json) list \<Rightarrow> string \<Rightarrow> json \<Rightarrow> json" where
  "dict_get d k dflt = (case map_of d k of None \<Rightarrow> dflt | Some v \<Rightarrow> v)"

section \<open>update_categories_for_vm.py: configuration loader and payload\<close>

text \<open>
  \<^verbatim>\<open>read_vars_file\<close> of \<^verbatim>\<open>update_categories_for_vm.py\<close>. The file is given as its lines,
  \<open>None\<close> when it does not exist (the script prints a diagnostic and exits with 1).
  Each line is stripped; a line with an \<^verbatim>\<open>=\<close> stores the text after the first \<^verbatim>\<open>=\<close>
  under the text before it, a later line overwriting an earlier one.
\<close>

definition vars_line :: "string \<Rightarrow> (string \<rightharpoonup> string) \<Rightarrow> (string \<rightharpoonup> string)" where
  "vars_line l vars_dict =
     (let line = str_strip l
      in if CHR ''='' \<in> set line
         then (case split_once CHR ''='' line of (key, val) \<Rightarrow> vars_dict(key \<mapsto> val))
         else vars_dict)"

definition read_vars_file :: "string list option \<Rightarrow> (string \<rightharpoonup> string) option" where
  "read_vars_file vars_file =
     (case vars_file of
        None \<Rightarrow> None
      | Some ls \<Rightarrow> Some (fold vars_line ls Map.empty))"

text \<open>
  \<^verbatim>\<open>build_categories_payload\<close>: one \<^verbatim>\<open>{"extId": ...}\<close> per identifier that is not empty
  after stripping, in the order given.
\<close>

fun build_categories :: "string list \<Rightarrow> json list" where
  "build_categories [] = []"
| "build_categories (uuid_str # rest) =
     (let u = str_strip uuid_str
      in if u \<noteq> [] then JObj [(''extId'', JStr u)] # build_categories rest
         else build_categories rest)"

definition build_categories_payload :: "string list \<Rightarrow> json" where
  "build_categories_payload category_uuids =
     JObj [(''categories'', JList (build_categories category_uuids))]"

text \<open>
  The list comprehension of \<^verbatim>\<open>main\<close> (line 233):
  \<^verbatim>\<open>[uuid.strip() for uuid in category_uuids_str.split(',') if uuid.strip()]\<close>.
\<close>

definition parse_category_uuids :: "string \<Rightarrow> string list" where
  "parse_category_uuids category_uuids_str =
     map str_strip (filter (\<lambda>u. str_strip u \<noteq> []) (str_split CHR '','' category_uuids_str))"

section \<open>update_categories_for_vm.py: HTTP, the spreadsheet and main\<close>

text \<open>
  \<^verbatim>\<open>create_auth_header\<close>: \<^verbatim>\<open>credentials.encode('ascii')\<close> raises UnicodeEncodeError on a
  character above 127 (\<open>None\<close>); otherwise the header holds the Base64 text of
  \<^verbatim>\<open>username:password\<close>.
\<close>

definition b64_alphabet :: string where
  "b64_alphabet = ''ABCDEFGHIJKLMNOPQRSTUVWXYZabcdefghijklmnopqrstuvwxyz0123456789+/''"

fun b64_bytes :: "nat list \<Rightarrow> string" where
  "b64_bytes [] = []"
| "b64_bytes [a] =
     [b64_alphabet ! (a div 4), b64_alphabet ! ((a mod 4) * 16), CHR ''='', CHR ''='']"
| "b64_bytes [a, b] =
     [b64_alphabet ! (a div 4), b64_alphabet ! ((a mod 4) * 16 + b div 16),
      b64_alphabet ! ((b mod 16) * 4), CHR ''='']"
| "b64_bytes (a # b # c # rest) =
     [b64_alphabet ! (a div 4), b64_alphabet ! ((a mod 4) * 16 + b div 16),
      b64_alphabet ! ((b mod 16) * 4 + c div 64), b64_alphabet ! (c mod 64)] @ b64_bytes rest"

definition b64encode :: "string \<Rightarrow> string" where
  "b64encode s = b64_bytes (map of_char s)"

definition create_auth_header :: "string \<Rightarrow> string \<Rightarrow> (string \<times> string) list option" where
  "create_auth_header username password =
     (let credentials = username @ '':'' @ password
      in if list_all (\<lambda>c. (of_char c :: nat) < 128) credentials
         then Some [(''Authorization'', ''Basic '' @ b64encode credentials)]
         else None)"

text \<open>
  A reply of the \<^verbatim>\<open>requests\<close> library: the status code and the ETag header, when the
  reply has one. The truth value of a \<^verbatim>\<open>Response\<close> object is its \<^verbatim>\<open>ok\<close> property
  (\<^verbatim>\<open>Response.__bool__\<close> returns \<^verbatim>\<open>self.ok\<close>): false exactly when the status is a
  client or server error, 400 to 599. \<open>None\<close> in place of a reply is a
  \<^verbatim>\<open>requests.exceptions.RequestException\<close> raised inside the \<^verbatim>\<open>try\<close> block.
\<close>

record response =
  status_code :: nat
  etag_header :: "string option"

definition response_ok :: "response \<Rightarrow> bool" where
  "response_ok r = (\<not> (400 \<le> status_code r \<and> status_code r < 600))"

definition truthy_response :: "response option \<Rightarrow> bool" where
  "truthy_response post_response =
     (case post_response of None \<Rightarrow> False | Some r \<Rightarrow> response_ok r)"

definition headers_get_etag :: "response \<Rightarrow> string" where
  "headers_get_etag r = (case etag_header r of None \<Rightarrow> [] | Some e \<Rightarrow> e)"

text \<open>
  What the script cannot decide: the server's replies, the identifiers \<^verbatim>\<open>uuid.uuid4()\<close>
  draws, the clock read by \<^verbatim>\<open>datetime.now().strftime(...)\<close> and whether the workbook
  file can be loaded and saved. Each operation reads and advances a world of type \<open>'w\<close>.
\<close>

record 'w env =
  requests_get :: "string \<Rightarrow> (string \<times> string) list \<Rightarrow> 'w \<Rightarrow> response option \<times> 'w"
  requests_post ::
    "string \<Rightarrow> (string \<times> string) list \<Rightarrow> json \<Rightarrow> 'w \<Rightarrow> response option \<times> 'w"
  uuid4 :: "'w \<Rightarrow> string \<times> 'w"
  strftime_now :: "'w \<Rightarrow> string \<times> 'w"
  workbook_io :: "'w \<Rightarrow> bool \<times> 'w"

text \<open>
  A value of the data frame: a string, the missing value \<^verbatim>\<open>nan\<close> that pandas gives an
  empty cell, or another value (a number, a date) carried by the text \<^verbatim>\<open>str\<close> gives it.
  A row maps column names to values; \<open>row_get\<close> is \<^verbatim>\<open>str(row.get(k, ''))\<close>.
\<close>

datatype cell = CStr string | CNaN | COther string

fun py_str :: "cell \<Rightarrow> string" where
  "py_str (CStr s) = s"
| "py_str CNaN = ''nan''"
| "py_str (COther s) = s"

type_synonym row = "string \<rightharpoonup> cell"

definition row_get :: "row \<Rightarrow> string \<Rightarrow> string" where
  "row_get row k = (case row k of None \<Rightarrow> [] | Some v \<Rightarrow> py_str v)"

text \<open>
  The worksheet as \<^verbatim>\<open>openpyxl\<close> shows it: the number of columns and, for a row and a
  column counted from 1, the cell with its value, font (colour, bold) and fill
  (start colour, end colour, fill type).
\<close>

record xlcell =
  cell_value :: "cell option"
  cell_font :: "(string \<times> bool) option"
  cell_fill :: "(string \<times> string \<times> string) option"

record worksheet =
  max_column :: nat
  cells :: "nat \<Rightarrow> nat \<Rightarrow> xlcell"

text \<open>
  What the script prints, without the separator lines and the dumps of the bodies.
\<close>

datatype message =
    MsgStarting
  | MsgVarsFileNotFound
  | MsgMissingRequiredVars
  | MsgUsing string string
  | MsgExcelNotFound
  | MsgLoadedExcel nat
  | MsgErrorReadingExcel
  | MsgSkipMissingData nat
  | MsgProcessingVM string string string
  | MsgNoValidCategories string
  | MsgMakingGet string
  | MsgVmETag string
  | MsgErrorGet
  | MsgFailedToGetETag string
  | MsgMakingPost string json
  | MsgPostStatus nat
  | MsgErrorPost
  | MsgAccepted string
  | MsgFailed string
  | MsgUpdatedExcel string string
  | MsgErrorUpdatingExcel
  | MsgSkipNotOK nat string
  | MsgCompleted

text \<open>
  The observable steps of a run, in order: the HTTP requests sent (URL, headers, body),
  the calls of \<^verbatim>\<open>update_excel_status\<close> (row index, status, timestamp) and the prints.
\<close>

datatype event =
    HttpGet string "(string \<times> string) list"
  | HttpPost string "(string \<times> string) list" json
  | UpdateExcel nat string string
  | Print message

fun is_http :: "event \<Rightarrow> bool" where
  "is_http (HttpGet url hs) = True"
| "is_http (HttpPost url hs body) = True"
| "is_http (UpdateExcel i s t) = False"
| "is_http (Print m) = False"

fun is_update :: "event \<Rightarrow> bool" where
  "is_update (UpdateExcel i s t) = True"
| "is_update (HttpGet url hs) = False"
| "is_update (HttpPost url hs body) = False"
| "is_update (Print m) = False"

record 'w state =
  trace :: "event list"
  sheet :: worksheet
  world :: "'w"

definition emit :: "event list \<Rightarrow> 'w state \<Rightarrow> 'w state" where
  "emit evs st = st\<lparr>trace := trace st @ evs\<rparr>"

text \<open>
  \<^verbatim>\<open>make_get_request\<close> returns the ETag (\<^verbatim>\<open>''\<close> when the reply has none) or \<^verbatim>\<open>None\<close>
  after an exception; \<^verbatim>\<open>make_post_request\<close> returns the reply or \<^verbatim>\<open>None\<close>.
\<close>

definition make_get_request ::
  "'w env \<Rightarrow> string \<Rightarrow> string \<Rightarrow> (string \<times> string) list \<Rightarrow> 'w state
   \<Rightarrow> string option \<times> 'w state" where
  "make_get_request env base_url uri_get headers st =
     (let full_url = base_url @ ''/'' @ uri_get;
          st1 = emit [Print (MsgMakingGet full_url), HttpGet full_url headers] st
      in case requests_get env full_url headers (world st1) of
           (None, w) \<Rightarrow> (None, emit [Print MsgErrorGet] (st1\<lparr>world := w\<rparr>))
         | (Some r, w) \<Rightarrow>
             (let vm_etag = headers_get_etag r
              in (Some vm_etag, emit [Print (MsgVmETag vm_etag)] (st1\<lparr>world := w\<rparr>))))"

definition make_post_request ::
  "'w env \<Rightarrow> string \<Rightarrow> string \<Rightarrow> (string \<times> string) list \<Rightarrow> json \<Rightarrow> 'w state
   \<Rightarrow> response option \<times> 'w state" where
  "make_post_request env base_url uri_post headers payload st =
     (let full_url = base_url @ ''/'' @ uri_post;
          st1 = emit [Print (MsgMakingPost full_url payload),
                      HttpPost full_url headers payload] st
      in case requests_post env full_url headers payload (world st1) of
           (None, w) \<Rightarrow> (None, emit [Print MsgErrorPost] (st1\<lparr>world := w\<rparr>))
         | (Some r, w) \<Rightarrow>
             (Some r, emit [Print (MsgPostStatus (status_code r))] (st1\<lparr>world := w\<rparr>)))"

text \<open>
  \<^verbatim>\<open>update_excel_status\<close>. The header test \<^verbatim>\<open>header and "..." in str(header).upper()\<close>
  needs a value that is there and, for a string, not empty. (A number that Python counts
  as false is zero, and its text holds neither phrase, so the test fails for it either
  way.) The later of two matching columns wins. Any exception while the workbook is
  loaded, changed or saved is caught and printed, and the file stays as it was.
\<close>

fun cell_truthy :: "cell option \<Rightarrow> bool" where
  "cell_truthy None = False"
| "cell_truthy (Some (CStr s)) = (s \<noteq> [])"
| "cell_truthy (Some CNaN) = True"
| "cell_truthy (Some (COther s)) = True"

definition header_has :: "cell option \<Rightarrow> string \<Rightarrow> bool" where
  "header_has header phrase =
     (cell_truthy header \<and>
      str_contains (str_upper (case header of None \<Rightarrow> ''None'' | Some v \<Rightarrow> py_str v))
        (codes phrase))"

fun find_columns ::
  "worksheet \<Rightarrow> nat list \<Rightarrow> nat option \<times> nat option \<Rightarrow> nat option \<times> nat option" where
  "find_columns ws [] found = found"
| "find_columns ws (col # cols) (status_col, timestamp_col) =
     (let header = cell_value (cells ws 1 col)
      in if header_has header ''STATUS OF UPDATE''
         then find_columns ws cols (Some col, timestamp_col)
         else if header_has header ''TIMESTAMP''
         then find_columns ws cols (status_col, Some col)
         else find_columns ws cols (status_col, timestamp_col))"

definition set_cell :: "worksheet \<Rightarrow> nat \<Rightarrow> nat \<Rightarrow> xlcell \<Rightarrow> worksheet" where
  "set_cell ws r c x = ws\<lparr>cells := (cells ws)(r := (cells ws r)(c := x))\<rparr>"

definition write_status :: "worksheet \<Rightarrow> nat \<Rightarrow> nat option \<Rightarrow> string \<Rightarrow> worksheet" where
  "write_status ws r status_col status =
     (case status_col of
        None \<Rightarrow> ws
      | Some c \<Rightarrow>
          set_cell ws r c
            ((cells ws r c)\<lparr>cell_value := Some (CStr status),
                             cell_font := Some (''FFFFFF'', True),
                             cell_fill := Some (''00FF00'', ''00FF00'', ''solid'')\<rparr>))"

definition write_timestamp :: "worksheet \<Rightarrow> nat \<Rightarrow> nat option \<Rightarrow> string \<Rightarrow> worksheet" where
  "write_timestamp ws r timestamp_col timestamp =
     (case timestamp_col of
        None \<Rightarrow> ws
      | Some c \<Rightarrow> set_cell ws r c ((cells ws r c)\<lparr>cell_value := Some (CStr timestamp)\<rparr>))"

definition update_excel_status ::
  "'w env \<Rightarrow> nat \<Rightarrow> string \<Rightarrow> string \<Rightarrow> 'w state \<Rightarrow> 'w state" where
  "update_excel_status env row_index status timestamp st =
     (let st1 = emit [UpdateExcel row_index status timestamp] st
      in case workbook_io env (world st1) of
           (False, w) \<Rightarrow> emit [Print MsgErrorUpdatingExcel] (st1\<lparr>world := w\<rparr>)
         | (True, w) \<Rightarrow>
             (case find_columns (sheet st1) [1 ..< max_column (sheet st1) + 1] (None, None) of
                (status_col, timestamp_col) \<Rightarrow>
                  (let ws1 = write_status (sheet st1) (row_index + 2) status_col status;
                       ws2 = write_timestamp ws1 (row_index + 2) timestamp_col timestamp
                   in emit [Print (MsgUpdatedExcel status timestamp)]
                        (st1\<lparr>sheet := ws2, world := w\<rparr>))))"

text \<open>
  Lines 269 to 284 of \<^verbatim>\<open>main\<close>: what is written for a row once its POST has returned.
  \<^verbatim>\<open>post_response\<close> is tested by its truth value, in the condition and again where the
  status code is chosen.
\<close>

definition record_outcome ::
  "'w env \<Rightarrow> nat \<Rightarrow> response option \<Rightarrow> 'w state \<Rightarrow> 'w state" where
  "record_outcome env index post_response st3 =
     (if truthy_response post_response \<and> status_code (the post_response) = 202
      then
        (let vm_etag_updated = headers_get_etag (the post_response);
             st4 = emit [Print (MsgAccepted vm_etag_updated)] st3;
             (timestamp, w4) = strftime_now env (world st4)
         in update_excel_status env index ''ACCEPTED'' timestamp (st4\<lparr>world := w4\<rparr>))
      else
        (let status_code_text =
               (if truthy_response post_response
                then str_of_nat (status_code (the post_response))
                else ''N/A'');
             st4 = emit [Print (MsgFailed status_code_text)] st3;
             (timestamp, w4) = strftime_now env (world st4)
         in update_excel_status env index (''FAILED ('' @ status_code_text @ '')'') timestamp
              (st4\<lparr>world := w4\<rparr>)))"

text \<open>
  The body of the loop of \<^verbatim>\<open>main\<close> for the row at \<open>index\<close>; each \<^verbatim>\<open>continue\<close> returns
  the state reached so far.
\<close>

definition process_row ::
  "'w env \<Rightarrow> string \<Rightarrow> (string \<times> string) list \<Rightarrow> nat \<times> row \<Rightarrow> 'w state \<Rightarrow> 'w state" where
  "process_row env base_url auth_headers indexed_row st =
     (case indexed_row of (index, row) \<Rightarrow>
      let match_status = str_strip (row_get row ''VM Name/extId & Category exId(s) Match'')
      in if str_upper match_status = codes ''OK'' then
           (let vm_name = str_strip (row_get row ''VM Name'');
                vm_extid = str_strip (row_get row ''VM extId'');
                category_uuids_str = str_strip (row_get row ''Category UUID(s)'')
            in if \<not> (vm_name \<noteq> [] \<and> vm_extid \<noteq> [] \<and> category_uuids_str \<noteq> [])
               then emit [Print (MsgSkipMissingData (index + 1))] st
               else
                 (let st1 = emit [Print (MsgProcessingVM vm_name vm_extid category_uuids_str)] st;
                      category_uuids = parse_category_uuids category_uuids_str
                  in if category_uuids = []
                     then emit [Print (MsgNoValidCategories vm_name)] st1
                     else
                       (let uri_get = ''vmm/v4.1/ahv/config/vms/'' @ vm_extid;
                            uri_post = ''vmm/v4.1/ahv/config/vms/'' @ vm_extid
                                         @ ''/$actions/associate-categories'';
                            (rest_uuid, w1) = uuid4 env (world st1);
                            (vm_etag, st2) =
                               make_get_request env base_url uri_get auth_headers
                                 (st1\<lparr>world := w1\<rparr>)
                        in if vm_etag = None \<or> vm_etag = Some []
                           then emit [Print (MsgFailedToGetETag vm_name)] st2
                           else
                             (let payload = build_categories_payload category_uuids;
                                  post_headers =
                                    auth_headers @
                                    [(''If-Match'', the vm_etag),
                                     (''NTNX-Request-Id'', rest_uuid),
                                     (''Content-Type'', ''application/json'')];
                                  (post_response, st3) =
                                     make_post_request env base_url uri_post post_headers
                                       payload st2
                              in record_outcome env index post_response st3))))
         else emit [Print (MsgSkipNotOK (index + 1) match_status)] st)"

definition process_rows ::
  "'w env \<Rightarrow> string \<Rightarrow> (string \<times> string) list \<Rightarrow> (nat \<times> row) list \<Rightarrow> 'w state \<Rightarrow> 'w state" where
  "process_rows env base_url auth_headers indexed_rows st =
     fold (process_row env base_url auth_headers) indexed_rows st"

text \<open>
  \<^verbatim>\<open>main\<close>. The inputs on disk: the lines of \<^verbatim>\<open>vars.txt\<close> (\<open>None\<close>: no such file), whether
  the workbook exists, and the rows \<^verbatim>\<open>pd.read_excel\<close> returns (\<open>None\<close>: it raised), which
  \<^verbatim>\<open>iterrows\<close> numbers from 0. A run ends by reaching the end, by \<^verbatim>\<open>sys.exit\<close> or by an
  exception nobody catches.
\<close>

record inputs =
  vars_txt :: "string list option"
  excel_exists :: bool
  read_excel :: "row list option"

datatype outcome = Completed | Exit nat | UnicodeEncodeError

definition vars_get :: "(string \<rightharpoonup> string) \<Rightarrow> string \<Rightarrow> string" where
  "vars_get vars_dict k = (case vars_dict k of None \<Rightarrow> [] | Some v \<Rightarrow> v)"

definition main :: "'w env \<Rightarrow> inputs \<Rightarrow> 'w state \<Rightarrow> outcome \<times> 'w state" where
  "main env inp st0 =
     (let st = emit [Print MsgStarting] st0
      in case read_vars_file (vars_txt inp) of
           None \<Rightarrow> (Exit 1, emit [Print MsgVarsFileNotFound] st)
         | Some vars_dict \<Rightarrow>
             (let base_url = vars_get vars_dict ''baseUrl'';
                  username = vars_get vars_dict ''username'';
                  password = vars_get vars_dict ''password''
              in if \<not> (base_url \<noteq> [] \<and> username \<noteq> [] \<and> password \<noteq> [])
                 then (Exit 1, emit [Print MsgMissingRequiredVars] st)
                 else
                   (let st1 = emit [Print (MsgUsing base_url username)] st
                    in case create_auth_header username password of
                         None \<Rightarrow> (UnicodeEncodeError, st1)
                       | Some auth_headers \<Rightarrow>
                           if \<not> excel_exists inp
                           then (Exit 1, emit [Print MsgExcelNotFound] st1)
                           else
                             (case read_excel inp of
                                None \<Rightarrow> (Exit 1, emit [Print MsgErrorReadingExcel] st1)
                              | Some df \<Rightarrow>
                                  (Completed,
                                   emit [Print MsgCompleted]
                                     (process_rows env base_url auth_headers (enumerate 0 df)
                                        (emit [Print (MsgLoadedExcel (length df))] st1)))))))"

text \<open>
  A scripted environment for running the model on examples: the world is the list of
  replies still to come for GET and for POST (a request with no reply left raises), and
  the identifier, the clock and the workbook file are fixed.
\<close>

definition script_env :: "(response option list \<times> response option list) env" where
  "script_env =
     \<lparr>requests_get = (\<lambda>url hs (gs, ps). (case gs of [] \<Rightarrow> (None, ([], ps)) | g # gs' \<Rightarrow> (g, (gs', ps)))),
      requests_post = (\<lambda>url hs body (gs, ps). (case ps of [] \<Rightarrow> (None, (gs, [])) | p # ps' \<Rightarrow> (p, (gs, ps')))),
      uuid4 = (\<lambda>w. (''0b9a2f0e-5d3c-4c1e-9a57-3d2f8f1f6a10'', w)),
      strftime_now = (\<lambda>w. (''04112026-1200'', w)),
      workbook_io = (\<lambda>w. (True, w))\<rparr>"

text \<open>
  The tests the loop body makes on a row, named for the statements below: the flag
  (line 219), the three required cells (line 224) and the parsed identifiers (line 233);
  then the URL of the row's GET and the reply the server gives to it.
\<close>

definition match_ok :: "row \<Rightarrow> bool" where
  "match_ok row =
     (str_upper (str_strip (row_get row ''VM Name/extId & Category exId(s) Match''))
      = codes ''OK'')"

definition has_required_data :: "row \<Rightarrow> bool" where
  "has_required_data row =
     (str_strip (row_get row ''VM Name'') \<noteq> [] \<and>
      str_strip (row_get row ''VM extId'') \<noteq> [] \<and>
      str_strip (row_get row ''Category UUID(s)'') \<noteq> [])"

definition row_category_uuids :: "row \<Rightarrow> string list" where
  "row_category_uuids row =
     parse_category_uuids (str_strip (row_get row ''Category UUID(s)''))"

definition vm_get_url :: "string \<Rightarrow> row \<Rightarrow> string" where
  "vm_get_url base_url row =
     base_url @ ''/'' @ ''vmm/v4.1/ahv/config/vms/'' @ str_strip (row_get row ''VM extId'')"

definition get_reply ::
  "'w env \<Rightarrow> string \<Rightarrow> (string \<times> string) list \<Rightarrow> row \<Rightarrow> 'w state \<Rightarrow> response option \<times> 'w" where
  "get_reply env base_url auth_headers row st =
     requests_get env (vm_get_url base_url row) auth_headers (snd (uuid4 env (world st)))"

definition no_token :: "response option \<Rightarrow> bool" where
  "no_token reply = (case reply of None \<Rightarrow> True | Some r \<Rightarrow> headers_get_etag r = [])"

text \<open>Example data: a row of strings, an empty cell, a sheet with the six headers, a
  starting state with the replies to come, and the files of a run.\<close>

definition mk_row :: "string \<Rightarrow> string \<Rightarrow> string \<Rightarrow> string \<Rightarrow> row" where
  "mk_row vm_name vm_extid match cats =
     map_of [(''VM Name'', CStr vm_name), (''VM extId'', CStr vm_extid),
             (''VM Name/extId & Category exId(s) Match'', CStr match),
             (''Category UUID(s)'', CStr cats)]"

text \<open>A row of cells as the workbook gives them: a cell left empty is read as \<^verbatim>\<open>nan\<close>.\<close>

definition row_of_cells :: "cell \<Rightarrow> cell \<Rightarrow> cell \<Rightarrow> cell \<Rightarrow> row" where
  "row_of_cells vm_name vm_extid match cats =
     map_of [(''VM Name'', vm_name), (''VM extId'', vm_extid),
             (''VM Name/extId & Category exId(s) Match'', match),
             (''Category UUID(s)'', cats)]"

definition empty_xlcell :: xlcell where
  "empty_xlcell = \<lparr>cell_value = None, cell_font = None, cell_fill = None\<rparr>"

definition demo_headers :: "string list" where
  "demo_headers =
     [''VM Name'', ''VM extId'', ''Category UUID(s)'',
      ''VM Name/extId & Category exId(s) Match'', ''Status of Update'', ''Timestamp'']"

definition demo_sheet :: worksheet where
  "demo_sheet =
     \<lparr>max_column = 6,
      cells = (\<lambda>r c. if r = 1 \<and> 1 \<le> c \<and> c \<le> 6
                      then empty_xlcell\<lparr>cell_value := Some (CStr (demo_headers ! (c - 1)))\<rparr>
                      else empty_xlcell)\<rparr>"

definition demo_state ::
  "response option list \<Rightarrow> response option list
   \<Rightarrow> (response option list \<times> response option list) state" where
  "demo_state gets posts = \<lparr>trace = [], sheet = demo_sheet, world = (gets, posts)\<rparr>"

definition demo_inputs :: "row list \<Rightarrow> inputs" where
  "demo_inputs df =
     \<lparr>vars_txt = Some [''baseUrl=https://pc.example:9440/api'', ''username=admin'',
                        ''password=secret''],
      excel_exists = True,
      read_excel = Some df\<rparr>"

text \<open>The state in which \<^verbatim>\<open>main\<close> enters its loop.\<close>

definition loop_start :: "inputs \<Rightarrow> 'w state \<Rightarrow> 'w state" where
  "loop_start inp st0 =
     emit [Print MsgStarting,
           Print (MsgUsing (vars_get (the (read_vars_file (vars_txt inp))) ''baseUrl'')
                    (vars_get (the (read_vars_file (vars_txt inp))) ''username'')),
           Print (MsgLoadedExcel (length (the (read_excel inp))))] st0"

section \<open>deploy_windows_vm.py: configuration loader\<close>

text \<open>
  \<^verbatim>\<open>read_vars_file\<close> of \<^verbatim>\<open>experimental/deploy_windows_vm.py\<close> and of
  \<^verbatim>\<open>scratch/deploy_windows_vm.py\<close> (the two are the same text). A stripped line counts
  when it is not empty, does not start with \<^verbatim>\<open>#\<close> and has an \<^verbatim>\<open>=\<close>; key and value are
  stripped. The loader exits with 1 when the file is absent or a required key is not in
  the dictionary: \<open>Inl\<close> carries the diagnostic.
\<close>

datatype config_error = VarsFileNotFound | MissingRequiredKey string

definition deploy_vars_line :: "string \<Rightarrow> (string \<rightharpoonup> string) \<Rightarrow> (string \<rightharpoonup> string)" where
  "deploy_vars_line l config =
     (let line = str_strip l
      in if line \<noteq> [] \<and> \<not> startswith line ''#'' \<and> CHR ''='' \<in> set line
         then (case split_once CHR ''='' line of
                 (key, val) \<Rightarrow> config(str_strip key \<mapsto> str_strip val))
         else config)"

fun check_required_keys :: "string list \<Rightarrow> (string \<rightharpoonup> string) \<Rightarrow> config_error option" where
  "check_required_keys [] config = None"
| "check_required_keys (key # required_keys) config =
     (if config key = None then Some (MissingRequiredKey key)
      else check_required_keys required_keys config)"

definition deploy_read_vars_file ::
  "string list option \<Rightarrow> config_error + (string \<rightharpoonup> string)" where
  "deploy_read_vars_file vars_file =
     (case vars_file of
        None \<Rightarrow> Inl VarsFileNotFound
      | Some ls \<Rightarrow>
          (let config = fold deploy_vars_line ls Map.empty
           in case check_required_keys [''baseUrl'', ''username'', ''password''] config of
                Some e \<Rightarrow> Inl e
              | None \<Rightarrow> Inr config))"

section \<open>experimental/deploy_windows_vm.py: requests and inventory\<close>

text \<open>
  A run of the provisioning script ends by reaching the end of \<^verbatim>\<open>main\<close>, by
  \<^verbatim>\<open>sys.exit(n)\<close> or by an exception that nothing catches. Its observable steps are
  the requests it sends (method, URL, headers, JSON body), the payload a dry run prints,
  the deployment record it writes and its other printed lines. The server's replies come
  from a world of type \<open>'w\<close>; \<open>None\<close> is any \<^verbatim>\<open>RequestException\<close> (no connection, an error
  status raised by \<^verbatim>\<open>raise_for_status\<close>, a body that is not JSON). The lines typed
  at the prompts are a list; \<^verbatim>\<open>input()\<close> on an empty list raises EOFError.
\<close>

datatype exn = TypeError | AttributeError | KeyError | OverflowError | EOFError | ValueError

datatype halt = SysExit nat | Raised exn

datatype dmessage =
    SafetyCheck
  | ConfigError config_error
  | ConnectionFailed
  | ApiRequestFailed
  | NoneFound string
  | FoundExact json
  | FoundCaseInsensitive json
  | NotFound string
  | CannotProceed string
  | Listing string nat
  | SelectedIndex nat
  | InvalidIndex
  | InvalidInput
  | Exiting
  | Summary json json
  | DryRunCompleted
  | Cancelled
  | Deploying json
  | Initiated
  | DeploymentFailed

datatype devent =
    Request string string "(string \<times> string) list" "json option"
  | PrintPayload json
  | WriteDeploymentFile json
  | Say dmessage

fun is_post_request :: "devent \<Rightarrow> bool" where
  "is_post_request (Request m url hs body) = (m = ''POST'')"
| "is_post_request (PrintPayload p) = False"
| "is_post_request (WriteDeploymentFile j) = False"
| "is_post_request (Say m) = False"

record 'w dstate =
  dtrace :: "devent list"
  stdin :: "string list"
  dworld :: "'w"

definition say :: "devent list \<Rightarrow> 'w dstate \<Rightarrow> 'w dstate" where
  "say evs st = st\<lparr>dtrace := dtrace st @ evs\<rparr>"

type_synonym 'w server =
  "string \<Rightarrow> string \<Rightarrow> (string \<times> string) list \<Rightarrow> json option \<Rightarrow> 'w \<Rightarrow> json option \<times> 'w"

text \<open>
  \<^verbatim>\<open>make_api_request\<close>: the request is sent for GET and POST (a GET carries no body); any
  \<^verbatim>\<open>RequestException\<close> ends the process with \<^verbatim>\<open>sys.exit(1)\<close>; otherwise the parsed body is
  returned, \<^verbatim>\<open>{}\<close> standing for an empty one. Another method raises ValueError.
\<close>

definition make_api_request ::
  "'w server \<Rightarrow> string \<Rightarrow> string \<Rightarrow> (string \<times> string) list \<Rightarrow> json option \<Rightarrow> 'w dstate
   \<Rightarrow> (halt + json) \<times> 'w dstate" where
  "make_api_request server method url headers data st =
     (let m = str_upper method
      in if m = codes ''GET'' \<or> m = codes ''POST'' then
           (let verb = (if m = codes ''GET'' then ''GET'' else ''POST'');
                body = (if m = codes ''GET'' then None else data);
                st1 = say [Request verb url headers body] st
            in case server verb url headers body (dworld st1) of
                 (None, w) \<Rightarrow> (Inl (SysExit 1), say [Say ApiRequestFailed] (st1\<lparr>dworld := w\<rparr>))
               | (Some response_data, w) \<Rightarrow> (Inr response_data, st1\<lparr>dworld := w\<rparr>))
         else (Inl (Raised ValueError), st))"

text \<open>Python's truth value of a JSON value.\<close>

fun truthy :: "json \<Rightarrow> bool" where
  "truthy JNull = False"
| "truthy (JBool b) = b"
| "truthy (JInt i) = (i \<noteq> 0)"
| "truthy (JStr s) = (s \<noteq> [])"
| "truthy (JList xs) = (xs \<noteq> [])"
| "truthy (JObj d) = (d \<noteq> [])"

text \<open>
  The test \<^verbatim>\<open>'data' not in images_data or not images_data['data']\<close> followed by the
  start of \<^verbatim>\<open>for image in images_data['data']\<close>: the list to search (\<open>None\<close> when the
  script prints "No ... found!"), or the exception Python raises when the reply is not an
  object (\<^verbatim>\<open>in\<close> on a number, indexing a list or a string by \<^verbatim>\<open>'data'\<close>) or when the value
  under \<^verbatim>\<open>data\<close> is not a list (iterating a number, or \<^verbatim>\<open>.get\<close> on the characters of a
  string or the keys of an object).
\<close>

fun data_items :: "json \<Rightarrow> halt + json list option" where
  "data_items (JObj d) =
     (case map_of d ''data'' of
        None \<Rightarrow> Inr None
      | Some v \<Rightarrow>
          if \<not> truthy v then Inr None
          else (case v of
                  JList xs \<Rightarrow> Inr (Some xs)
                | JStr s \<Rightarrow> Inl (Raised AttributeError)
                | JObj d' \<Rightarrow> Inl (Raised AttributeError)
                | _ \<Rightarrow> Inl (Raised TypeError)))"
| "data_items (JList xs) =
     (if JStr ''data'' \<in> set xs then Inl (Raised TypeError) else Inr None)"
| "data_items (JStr s) =
     (if str_contains s ''data'' then Inl (Raised TypeError) else Inr None)"
| "data_items JNull = Inl (Raised TypeError)"
| "data_items (JBool b) = Inl (Raised TypeError)"
| "data_items (JInt i) = Inl (Raised TypeError)"

text \<open>
  The two loops of \<^verbatim>\<open>find_image_by_name\<close> and \<^verbatim>\<open>find_network_by_name\<close>. The first
  returns the first entry whose \<^verbatim>\<open>name\<close> equals the wanted name; an entry that is not
  an object has no \<^verbatim>\<open>.get\<close> (AttributeError). The second, run only when the first found
  nothing, compares the lower-cased names; a \<^verbatim>\<open>name\<close> that is not a string has no
  \<^verbatim>\<open>.lower\<close> (AttributeError).
\<close>

fun find_exact :: "json list \<Rightarrow> string \<Rightarrow> halt + (string \<times> json) list option" where
  "find_exact [] wanted = Inr None"
| "find_exact (JObj d # rest) wanted =
     (if dict_get d ''name'' (JStr []) = JStr wanted then Inr (Some d)
      else find_exact rest wanted)"
| "find_exact (other # rest) wanted = Inl (Raised AttributeError)"

fun find_case_insensitive ::
  "json list \<Rightarrow> string \<Rightarrow> halt + (string \<times> json) list option" where
  "find_case_insensitive [] wanted = Inr None"
| "find_case_insensitive (JObj d # rest) wanted =
     (case dict_get d ''name'' (JStr []) of
        JStr n \<Rightarrow>
          if str_lower n = str_lower wanted then Inr (Some d)
          else find_case_insensitive rest wanted
      | _ \<Rightarrow> Inl (Raised AttributeError))"
| "find_case_insensitive (other # rest) wanted = Inl (Raised AttributeError)"

text \<open>
  The dictionary built for a found image or network. \<^verbatim>\<open>size_gb\<close> is the float
  \<^verbatim>\<open>round(sizeInBytes / 1024**3, 2)\<close>; the model keeps the integer it is computed from
  (a boolean counts as 0 or 1). The division raises TypeError for a value that is not a
  number and OverflowError for an integer whose quotient is too large for a float: with
  rounding to nearest that is from \<open>2 ^ 1054 - 2 ^ 1000\<close> on, in absolute value.
  \<^verbatim>\<open>list_images\<close> skips the division for a value that is false.
\<close>

definition division_overflows :: "int \<Rightarrow> bool" where
  "division_overflows n = (2 ^ 1054 - 2 ^ 1000 \<le> \<bar>n\<bar>)"

record image_info =
  image_name :: json
  image_type :: json
  size_in_bytes :: int
  image_ext_id :: json
  image_data :: "(string \<times> json) list"

record network_info =
  network_name :: json
  network_type :: json
  vlan_id :: json
  network_ext_id :: json
  network_data :: "(string \<times> json) list"

fun number_of :: "json \<Rightarrow> int option" where
  "number_of (JInt i) = Some i"
| "number_of (JBool b) = Some (if b then 1 else 0)"
| "number_of other = None"

definition image_entry :: "(string \<times> json) list \<Rightarrow> halt + image_info" where
  "image_entry img =
     (case number_of (dict_get img ''sizeInBytes'' (JInt 0)) of
        None \<Rightarrow> Inl (Raised TypeError)
      | Some n \<Rightarrow>
          if division_overflows n then Inl (Raised OverflowError)
          else
          Inr \<lparr>image_name = dict_get img ''name'' (JStr ''Unknown''),
               image_type = dict_get img ''type'' (JStr ''Unknown''),
               size_in_bytes = n,
               image_ext_id = dict_get img ''extId'' (JStr ''Unknown''),
               image_data = img\<rparr>)"

definition network_entry :: "(string \<times> json) list \<Rightarrow> network_info" where
  "network_entry network =
     \<lparr>network_name = dict_get network ''name'' (JStr ''Unknown''),
      network_type = dict_get network ''subnetType'' (JStr ''Unknown''),
      vlan_id = dict_get network ''vlanId'' (JStr ''N/A''),
      network_ext_id = dict_get network ''extId'' (JStr ''Unknown''),
      network_data = network\<rparr>"

text \<open>
  Lines 191 to 226 of \<^verbatim>\<open>find_image_by_name\<close>: the search in the reply. The line printed
  for a match reads \<^verbatim>\<open>image['name']\<close>, a KeyError when the entry has no such key (an entry
  without a name matches the wanted name \<^verbatim>\<open>''\<close>); the dictionary is built after it.
\<close>

definition found_image ::
  "(string \<times> json) list \<Rightarrow> (json \<Rightarrow> dmessage) \<Rightarrow> 'w dstate
   \<Rightarrow> (halt + image_info option) \<times> 'w dstate" where
  "found_image img found st =
     (case map_of img ''name'' of
        None \<Rightarrow> (Inl (Raised KeyError), st)
      | Some name \<Rightarrow>
          (case image_entry img of
             Inl h \<Rightarrow> (Inl h, say [Say (found name)] st)
           | Inr info \<Rightarrow> (Inr (Some info), say [Say (found name)] st)))"

definition search_images ::
  "json \<Rightarrow> string \<Rightarrow> 'w dstate \<Rightarrow> (halt + image_info option) \<times> 'w dstate" where
  "search_images images_data wanted st =
     (case data_items images_data of
        Inl h \<Rightarrow> (Inl h, st)
      | Inr None \<Rightarrow> (Inr None, say [Say (NoneFound ''images'')] st)
      | Inr (Some items) \<Rightarrow>
          (case find_exact items wanted of
             Inl h \<Rightarrow> (Inl h, st)
           | Inr (Some img) \<Rightarrow> found_image img FoundExact st
           | Inr None \<Rightarrow>
               (case find_case_insensitive items wanted of
                  Inl h \<Rightarrow> (Inl h, st)
                | Inr (Some img) \<Rightarrow> found_image img FoundCaseInsensitive st
                | Inr None \<Rightarrow> (Inr None, say [Say (NotFound wanted)] st))))"

definition find_image_by_name ::
  "'w server \<Rightarrow> string \<Rightarrow> (string \<times> string) list \<Rightarrow> string \<Rightarrow> 'w dstate
   \<Rightarrow> (halt + image_info option) \<times> 'w dstate" where
  "find_image_by_name server base_url headers wanted st =
     (case make_api_request server ''GET'' (base_url @ ''/vmm/v4.1/content/images'') headers
             None st of
        (Inl h, st1) \<Rightarrow> (Inl h, st1)
      | (Inr images_data, st1) \<Rightarrow> search_images images_data wanted st1)"

definition found_network ::
  "(string \<times> json) list \<Rightarrow> (json \<Rightarrow> dmessage) \<Rightarrow> 'w dstate
   \<Rightarrow> (halt + network_info option) \<times> 'w dstate" where
  "found_network network found st =
     (case map_of network ''name'' of
        None \<Rightarrow> (Inl (Raised KeyError), st)
      | Some name \<Rightarrow> (Inr (Some (network_entry network)), say [Say (found name)] st))"

definition search_networks ::
  "json \<Rightarrow> string \<Rightarrow> 'w dstate \<Rightarrow> (halt + network_info option) \<times> 'w dstate" where
  "search_networks networks_data wanted st =
     (case data_items networks_data of
        Inl h \<Rightarrow> (Inl h, st)
      | Inr None \<Rightarrow> (Inr None, say [Say (NoneFound ''networks'')] st)
      | Inr (Some items) \<Rightarrow>
          (case find_exact items wanted of
             Inl h \<Rightarrow> (Inl h, st)
           | Inr (Some network) \<Rightarrow> found_network network FoundExact st
           | Inr None \<Rightarrow>
               (case find_case_insensitive items wanted of
                  Inl h \<Rightarrow> (Inl h, st)
                | Inr (Some network) \<Rightarrow> found_network network FoundCaseInsensitive st
                | Inr None \<Rightarrow> (Inr None, say [Say (NotFound wanted)] st))))"

definition find_network_by_name ::
  "'w server \<Rightarrow> string \<Rightarrow> (string \<times> string) list \<Rightarrow> string \<Rightarrow> 'w dstate
   \<Rightarrow> (halt + network_info option) \<times> 'w dstate" where
  "find_network_by_name server base_url headers wanted st =
     (case make_api_request server ''GET'' (base_url @ ''/networking/v4.1/config/subnets'')
             headers None st of
        (Inl h, st1) \<Rightarrow> (Inl h, st1)
      | (Inr networks_data, st1) \<Rightarrow> search_networks networks_data wanted st1)"

section \<open>experimental/deploy_windows_vm.py: listing, choosing and main\<close>

text \<open>
  \<^verbatim>\<open>list_images\<close> and \<^verbatim>\<open>list_networks\<close> build one dictionary per entry and print a table
  row for it. An entry that is not an object has no \<^verbatim>\<open>.get\<close>; a name or type that is
  \<^verbatim>\<open>None\<close>, a list or an object does not accept the format \<^verbatim>\<open>:<30\<close> (TypeError).
\<close>

fun format_ok :: "json \<Rightarrow> bool" where
  "format_ok (JStr s) = True"
| "format_ok (JInt i) = True"
| "format_ok (JBool b) = True"
| "format_ok JNull = False"
| "format_ok (JList xs) = False"
| "format_ok (JObj d) = False"

fun list_image_entries :: "json list \<Rightarrow> halt + image_info list" where
  "list_image_entries [] = Inr []"
| "list_image_entries (JObj d # rest) =
     (let size_bytes = dict_get d ''sizeInBytes'' (JInt 0)
      in if truthy size_bytes \<and> number_of size_bytes = None then Inl (Raised TypeError)
         else if truthy size_bytes \<and> division_overflows (the (number_of size_bytes))
         then Inl (Raised OverflowError)
         else if \<not> format_ok (dict_get d ''name'' (JStr ''Unknown''))
                 \<or> \<not> format_ok (dict_get d ''type'' (JStr ''Unknown''))
         then Inl (Raised TypeError)
         else (case list_image_entries rest of
                 Inl h \<Rightarrow> Inl h
               | Inr infos \<Rightarrow>
                   Inr (\<lparr>image_name = dict_get d ''name'' (JStr ''Unknown''),
                         image_type = dict_get d ''type'' (JStr ''Unknown''),
                         size_in_bytes =
                           (if truthy size_bytes then the (number_of size_bytes) else 0),
                         image_ext_id = dict_get d ''extId'' (JStr ''Unknown''),
                         image_data = d\<rparr> # infos)))"
| "list_image_entries (other # rest) = Inl (Raised AttributeError)"

fun list_network_entries :: "json list \<Rightarrow> halt + network_info list" where
  "list_network_entries [] = Inr []"
| "list_network_entries (JObj d # rest) =
     (if \<not> format_ok (dict_get d ''name'' (JStr ''Unknown''))
         \<or> \<not> format_ok (dict_get d ''subnetType'' (JStr ''Unknown''))
      then Inl (Raised TypeError)
      else (case list_network_entries rest of
              Inl h \<Rightarrow> Inl h
            | Inr infos \<Rightarrow> Inr (network_entry d # infos)))"
| "list_network_entries (other # rest) = Inl (Raised AttributeError)"

definition list_images ::
  "'w server \<Rightarrow> string \<Rightarrow> (string \<times> string) list \<Rightarrow> 'w dstate
   \<Rightarrow> (halt + image_info list) \<times> 'w dstate" where
  "list_images server base_url headers st =
     (case make_api_request server ''GET'' (base_url @ ''/vmm/v4.1/content/images'') headers
             None st of
        (Inl h, st1) \<Rightarrow> (Inl h, st1)
      | (Inr images_data, st1) \<Rightarrow>
          (case data_items images_data of
             Inl h \<Rightarrow> (Inl h, st1)
           | Inr None \<Rightarrow> (Inr [], say [Say (NoneFound ''images'')] st1)
           | Inr (Some items) \<Rightarrow>
               (case list_image_entries items of
                  Inl h \<Rightarrow> (Inl h, st1)
                | Inr images \<Rightarrow>
                    (Inr images, say [Say (Listing ''images'' (length images))] st1))))"

definition list_networks ::
  "'w server \<Rightarrow> string \<Rightarrow> (string \<times> string) list \<Rightarrow> 'w dstate
   \<Rightarrow> (halt + network_info list) \<times> 'w dstate" where
  "list_networks server base_url headers st =
     (case make_api_request server ''GET'' (base_url @ ''/networking/v4.1/config/subnets'')
             headers None st of
        (Inl h, st1) \<Rightarrow> (Inl h, st1)
      | (Inr networks_data, st1) \<Rightarrow>
          (case data_items networks_data of
             Inl h \<Rightarrow> (Inl h, st1)
           | Inr None \<Rightarrow> (Inr [], say [Say (NoneFound ''networks'')] st1)
           | Inr (Some items) \<Rightarrow>
               (case list_network_entries items of
                  Inl h \<Rightarrow> (Inl h, st1)
                | Inr networks \<Rightarrow>
                    (Inr networks, say [Say (Listing ''networks'' (length networks))] st1))))"

text \<open>
  \<^verbatim>\<open>int(choice)\<close> for the typed index: an optional sign, then decimal digits, single
  underscores allowed between digits; anything else raises ValueError (\<open>None\<close>).
\<close>

definition digit_val :: "char \<Rightarrow> nat option" where
  "digit_val c =
     (let n = (of_char c :: nat) in if 48 \<le> n \<and> n \<le> 57 then Some (n - 48) else None)"

fun digits_val :: "string \<Rightarrow> nat \<Rightarrow> nat option" where
  "digits_val [] acc = Some acc"
| "digits_val (c # cs) acc =
     (case digit_val c of None \<Rightarrow> None | Some d \<Rightarrow> digits_val cs (10 * acc + d))"

definition py_int :: "string \<Rightarrow> int option" where
  "py_int s =
     (let t = str_strip s;
          negative = startswith t ''-'';
          body = (if startswith t ''-'' \<or> startswith t ''+'' then drop 1 t else t);
          groups = str_split CHR ''_'' body
      in if list_all (\<lambda>g. g \<noteq> []) groups
         then (case digits_val (concat groups) 0 of
                 None \<Rightarrow> None
               | Some n \<Rightarrow> Some (if negative then - int n else int n))
         else None)"

text \<open>
  The loop of \<^verbatim>\<open>select_from_list\<close> over the lines typed: it ends with the chosen item, with
  \<^verbatim>\<open>sys.exit(0)\<close> on \<^verbatim>\<open>q\<close>, \<^verbatim>\<open>quit\<close> or \<^verbatim>\<open>exit\<close>, or with EOFError when the input runs out.
  It returns the lines left and what it printed.
\<close>

fun select_loop ::
  "'a list \<Rightarrow> string list \<Rightarrow> devent list \<Rightarrow> (halt + 'a) \<times> string list \<times> devent list" where
  "select_loop items [] out = (Inl (Raised EOFError), [], out)"
| "select_loop items (line # rest) out =
     (let choice = str_strip line
      in if str_lower choice \<in> set [''q'', ''quit'', ''exit'']
         then (Inl (SysExit 0), rest, out @ [Say Exiting])
         else (case py_int choice of
                 None \<Rightarrow> select_loop items rest (out @ [Say InvalidInput])
               | Some index \<Rightarrow>
                   if 0 \<le> index \<and> index < int (length items)
                   then (Inr (items ! nat index), rest, out @ [Say (SelectedIndex (nat index))])
                   else select_loop items rest (out @ [Say InvalidIndex])))"

definition select_from_list ::
  "'a list \<Rightarrow> string \<Rightarrow> 'w dstate \<Rightarrow> (halt + 'a option) \<times> 'w dstate" where
  "select_from_list items item_type st =
     (if items = [] then (Inr None, say [Say (NoneFound item_type)] st)
      else (case select_loop items (stdin st) [] of
              (Inl h, rest, out) \<Rightarrow> (Inl h, say out (st\<lparr>stdin := rest\<rparr>))
            | (Inr selected, rest, out) \<Rightarrow> (Inr (Some selected), say out (st\<lparr>stdin := rest\<rparr>))))"

text \<open>
  The settings at the top of the script and \<^verbatim>\<open>create_vm_payload\<close>. \<^verbatim>\<open>VM_NAME\<close> is built
  from the clock when the script starts and is a parameter here. The identifier
  \<^verbatim>\<open>vm_uuid\<close> that the function draws is not used in the payload.
\<close>

definition VM_DESCRIPTION :: string where
  "VM_DESCRIPTION = ''Windows VM deployed via Python script using Nutanix v4 API''"

definition NUM_VCPUS :: int where "NUM_VCPUS = 4"
definition NUM_CORES_PER_VCPU :: int where "NUM_CORES_PER_VCPU = 1"
definition MEMORY_SIZE_MIB :: int where "MEMORY_SIZE_MIB = 8192"
definition BOOT_DISK_SIZE_GIB :: int where "BOOT_DISK_SIZE_GIB = 80"
definition BOOT_DISK_BUS :: string where "BOOT_DISK_BUS = ''SCSI''"
definition MACHINE_TYPE :: string where "MACHINE_TYPE = ''PC''"
definition BIOS_TYPE :: string where "BIOS_TYPE = ''LEGACY''"
definition SECURE_BOOT :: bool where "SECURE_BOOT = False"
definition TPM_ENABLED :: bool where "TPM_ENABLED = False"
definition BOOT_ORDER :: "string list" where "BOOT_ORDER = [''DISK'', ''CDROM'', ''NETWORK'']"
definition ALLOW_EXECUTION_WITHOUT_DOIT :: bool where "ALLOW_EXECUTION_WITHOUT_DOIT = False"

fun boot_devices_of :: "string list \<Rightarrow> json list \<Rightarrow> json list" where
  "boot_devices_of [] boot_devices = boot_devices"
| "boot_devices_of (boot_type # rest) boot_devices =
     (if boot_type = ''DISK'' \<or> boot_type = ''CDROM'' \<or> boot_type = ''NETWORK''
      then boot_devices_of rest
             (boot_devices @
              [JObj [(''bootDeviceType'', JStr boot_type),
                     (''bootDeviceOrder'', JInt (int (length boot_devices)))]])
      else boot_devices_of rest boot_devices)"

definition create_vm_payload :: "string \<Rightarrow> image_info \<Rightarrow> network_info \<Rightarrow> json" where
  "create_vm_payload vm_name img network =
     JObj [(''name'', JStr vm_name),
           (''description'', JStr VM_DESCRIPTION),
           (''numSockets'', JInt NUM_VCPUS),
           (''numCoresPerSocket'', JInt NUM_CORES_PER_VCPU),
           (''memorySizeBytes'', JInt (MEMORY_SIZE_MIB * 1024 * 1024)),
           (''machineType'', JStr MACHINE_TYPE),
           (''biosType'', JStr BIOS_TYPE),
           (''isSecureBootEnabled'', JBool SECURE_BOOT),
           (''isTpmEnabled'', JBool TPM_ENABLED),
           (''bootConfig'', JObj [(''bootDevices'', JList (boot_devices_of BOOT_ORDER []))]),
           (''disks'',
            JList [JObj [(''diskAddress'',
                          JObj [(''busType'', JStr BOOT_DISK_BUS), (''index'', JInt 0)]),
                         (''diskSizeBytes'', JInt (BOOT_DISK_SIZE_GIB * 1024 * 1024 * 1024)),
                         (''storageContainer'', JObj [(''extId'', image_ext_id img)]),
                         (''dataSourceReference'', JObj [(''extId'', image_ext_id img)])]]),
           (''nics'',
            JList [JObj [(''networkInfo'',
                          JObj [(''subnet'', JObj [(''extId'', network_ext_id network)])]),
                         (''nicType'', JStr ''NORMAL_NIC'')]]),
           (''guestOs'', JObj [(''osType'', JStr ''WINDOWS'')]),
           (''apcConfig'', JObj [(''isEnabled'', JBool False)])]"

text \<open>
  \<^verbatim>\<open>create_auth_header\<close> of this script encodes the credentials as UTF-8 (two bytes for a
  code point from 128 to 255) and cannot fail.
\<close>

definition utf8_bytes :: "string \<Rightarrow> nat list" where
  "utf8_bytes s =
     concat (map (\<lambda>c. let n = (of_char c :: nat)
                       in if n < 128 then [n] else [192 + n div 64, 128 + n mod 64]) s)"

definition deploy_create_auth_header :: "string \<Rightarrow> string \<Rightarrow> (string \<times> string) list" where
  "deploy_create_auth_header username password =
     [(''Authorization'', ''Basic '' @ b64_bytes (utf8_bytes (username @ '':'' @ password)))]"

text \<open>
  \<^verbatim>\<open>deploy_vm\<close>: the POST of the payload. A failed request has already ended the process
  inside \<^verbatim>\<open>make_api_request\<close> (\<^verbatim>\<open>SystemExit\<close> is not caught by \<^verbatim>\<open>except Exception\<close>).
\<close>

definition deploy_vm ::
  "'w server \<Rightarrow> string \<Rightarrow> (string \<times> string) list \<Rightarrow> json \<Rightarrow> 'w dstate
   \<Rightarrow> (halt + json) \<times> 'w dstate" where
  "deploy_vm server base_url headers payload st =
     make_api_request server ''POST'' (base_url @ ''/vmm/v4.1/ahv/config/vms'') headers
       (Some payload) (say [Say (Deploying (dict_get (case payload of JObj d \<Rightarrow> d | _ \<Rightarrow> [])
                                               ''name'' JNull))] st)"

text \<open>
  The command line after \<^verbatim>\<open>argparse\<close>, and \<^verbatim>\<open>main\<close> in two parts. The first, lines 508 to
  599, is the safety check, the configuration, the connection test and the two
  selections; it gives the base URL, the headers and the selected image and network.
  The second, lines 601 to 663, is the dry run or the confirmed deployment.
\<close>

record args =
  do_it :: bool
  dry_run :: bool
  arg_image_name :: "string option"
  arg_subnet :: "string option"

definition arg_given :: "string option \<Rightarrow> bool" where
  "arg_given a = (case a of None \<Rightarrow> False | Some v \<Rightarrow> v \<noteq> [])"

definition select_image ::
  "'w server \<Rightarrow> args \<Rightarrow> string \<Rightarrow> (string \<times> string) list \<Rightarrow> 'w dstate
   \<Rightarrow> (halt + image_info) \<times> 'w dstate" where
  "select_image server a base_url headers st =
     (if arg_given (arg_image_name a) then
        (case find_image_by_name server base_url headers (the (arg_image_name a)) st of
           (Inl h, st1) \<Rightarrow> (Inl h, st1)
         | (Inr None, st1) \<Rightarrow> (Inl (SysExit 1), say [Say (CannotProceed ''image'')] st1)
         | (Inr (Some selected), st1) \<Rightarrow> (Inr selected, st1))
      else
        (case list_images server base_url headers st of
           (Inl h, st1) \<Rightarrow> (Inl h, st1)
         | (Inr images, st1) \<Rightarrow>
             if images = [] then (Inl (SysExit 1), say [Say (CannotProceed ''images'')] st1)
             else (case select_from_list images ''image'' st1 of
                     (Inl h, st2) \<Rightarrow> (Inl h, st2)
                   | (Inr None, st2) \<Rightarrow> (Inl (SysExit 1), st2)
                   | (Inr (Some selected), st2) \<Rightarrow> (Inr selected, st2))))"

definition select_network ::
  "'w server \<Rightarrow> args \<Rightarrow> string \<Rightarrow> (string \<times> string) list \<Rightarrow> 'w dstate
   \<Rightarrow> (halt + network_info) \<times> 'w dstate" where
  "select_network server a base_url headers st =
     (if arg_given (arg_subnet a) then
        (case find_network_by_name server base_url headers (the (arg_subnet a)) st of
           (Inl h, st1) \<Rightarrow> (Inl h, st1)
         | (Inr None, st1) \<Rightarrow> (Inl (SysExit 1), say [Say (CannotProceed ''subnet'')] st1)
         | (Inr (Some selected), st1) \<Rightarrow> (Inr selected, st1))
      else
        (case list_networks server base_url headers st of
           (Inl h, st1) \<Rightarrow> (Inl h, st1)
         | (Inr networks, st1) \<Rightarrow>
             if networks = [] then (Inl (SysExit 1), say [Say (CannotProceed ''networks'')] st1)
             else (case select_from_list networks ''network'' st1 of
                     (Inl h, st2) \<Rightarrow> (Inl h, st2)
                   | (Inr None, st2) \<Rightarrow> (Inl (SysExit 1), st2)
                   | (Inr (Some selected), st2) \<Rightarrow> (Inr selected, st2))))"

record selection =
  sel_base_url :: string
  sel_headers :: "(string \<times> string) list"
  selected_image :: image_info
  selected_network :: network_info

definition main_setup ::
  "'w server \<Rightarrow> args \<Rightarrow> string list option \<Rightarrow> 'w dstate \<Rightarrow> (halt + selection) \<times> 'w dstate" where
  "main_setup server a vars_file st =
     (if \<not> do_it a \<and> \<not> ALLOW_EXECUTION_WITHOUT_DOIT
      then (Inl (SysExit 1), say [Say SafetyCheck] st)
      else
        (case deploy_read_vars_file vars_file of
           Inl e \<Rightarrow> (Inl (SysExit 1), say [Say (ConfigError e)] st)
         | Inr config \<Rightarrow>
             (let base_url = the (config ''baseUrl'');
                  headers =
                    deploy_create_auth_header (the (config ''username'')) (the (config ''password''))
                    @ [(''Content-Type'', ''application/json''), (''Accept'', ''application/json'')]
              in case make_api_request server ''GET'' (base_url @ ''/vmm/v4.1/ahv/config/vms'')
                        headers None st of
                   (Inl h, st1) \<Rightarrow> (Inl (SysExit 1), say [Say ConnectionFailed] st1)
                 | (Inr test_reply, st1) \<Rightarrow>
                     (case select_image server a base_url headers st1 of
                        (Inl h, st2) \<Rightarrow> (Inl h, st2)
                      | (Inr img, st2) \<Rightarrow>
                          (case select_network server a base_url headers st2 of
                             (Inl h, st3) \<Rightarrow> (Inl h, st3)
                           | (Inr network, st3) \<Rightarrow>
                               (Inr \<lparr>sel_base_url = base_url, sel_headers = headers,
                                     selected_image = img, selected_network = network\<rparr>,
                                say [Say (Summary (image_name img) (network_name network))]
                                  st3))))))"

text \<open>
  After a deployment that returned something true: \<^verbatim>\<open>'data' in result\<close> and, when it
  holds, \<^verbatim>\<open>result['data'].get(...)\<close>, with the exceptions of a reply that is not an object.
\<close>

fun report_result :: "json \<Rightarrow> exn option" where
  "report_result (JObj d) =
     (case map_of d ''data'' of
        None \<Rightarrow> None
      | Some (JObj vm_data) \<Rightarrow> None
      | Some other \<Rightarrow> Some AttributeError)"
| "report_result (JList xs) = (if JStr ''data'' \<in> set xs then Some TypeError else None)"
| "report_result (JStr s) = (if str_contains s ''data'' then Some TypeError else None)"
| "report_result other = Some TypeError"

definition deploy_main ::
  "'w server \<Rightarrow> string \<Rightarrow> args \<Rightarrow> string list option \<Rightarrow> 'w dstate
   \<Rightarrow> halt option \<times> 'w dstate" where
  "deploy_main server vm_name a vars_file st =
     (case main_setup server a vars_file st of
        (Inl h, st1) \<Rightarrow> (Some h, st1)
      | (Inr sel, st1) \<Rightarrow>
          if dry_run a then
            (let vm_payload =
                   create_vm_payload vm_name (selected_image sel) (selected_network sel)
             in (Some (SysExit 0), say [PrintPayload vm_payload, Say DryRunCompleted] st1))
          else
            (case stdin st1 of
               [] \<Rightarrow> (Some (Raised EOFError), st1)
             | line # rest \<Rightarrow>
                 (let confirm = str_lower (str_strip line);
                      st2 = st1\<lparr>stdin := rest\<rparr>
                  in if confirm \<notin> set [''y'', ''yes'']
                     then (Some (SysExit 0), say [Say Cancelled] st2)
                     else
                       (let vm_payload =
                              create_vm_payload vm_name (selected_image sel)
                                (selected_network sel)
                        in case deploy_vm server (sel_base_url sel) (sel_headers sel)
                                  vm_payload st2 of
                             (Inl h, st3) \<Rightarrow> (Some h, st3)
                           | (Inr result, st3) \<Rightarrow>
                               if truthy result then
                                 (case report_result result of
                                    Some e \<Rightarrow> (Some (Raised e), say [Say Initiated] st3)
                                  | None \<Rightarrow>
                                      (None,
                                       say [Say Initiated, WriteDeploymentFile result] st3))
                               else (Some (SysExit 1), say [Say DeploymentFailed] st3)))))"

text \<open>
  An inventory entry the image search can turn into its dictionary: an object whose
  \<^verbatim>\<open>sizeInBytes\<close>, when it has one, is a number that the division can turn into a
  float. Then an example inventory, in which the
  entry matching only without regard to case comes first.
\<close>

fun is_image_entry :: "json \<Rightarrow> bool" where
  "is_image_entry (JObj d) =
     (case number_of (dict_get d ''sizeInBytes'' (JInt 0)) of
        None \<Rightarrow> False
      | Some n \<Rightarrow> \<not> division_overflows n)"
| "is_image_entry other = False"

definition demo_inventory :: json where
  "demo_inventory =
     JObj [(''data'',
            JList [JObj [(''name'', JStr ''win2019''), (''extId'', JStr ''lower-case-entry'')],
                   JObj [(''name'', JStr ''Win2019''), (''extId'', JStr ''exact-entry''),
                         (''sizeInBytes'', JInt 42949672960)]])]"

text \<open>The POST requests among the steps of a run of the provisioning script.\<close>

definition posts :: "'w dstate \<Rightarrow> devent list" where
  "posts st = filter is_post_request (dtrace st)"

text \<open>
  A configuration file lacks a required key when the file is absent or the dictionary the
  loader builds from its lines has no entry for \<^verbatim>\<open>baseUrl\<close>, \<^verbatim>\<open>username\<close> or \<^verbatim>\<open>password\<close>;
  the first argument is the loader's step for one line.
\<close>

definition config_missing ::
  "(string \<Rightarrow> (string \<rightharpoonup> string) \<Rightarrow> (string \<rightharpoonup> string)) \<Rightarrow> string list option \<Rightarrow> bool" where
  "config_missing line_fn vars_file =
     (case vars_file of
        None \<Rightarrow> True
      | Some ls \<Rightarrow>
          (let d = fold line_fn ls Map.empty
           in d ''baseUrl'' = None \<or> d ''username'' = None \<or> d ''password'' = None))"

text \<open>
  An example for the provisioning script: a server that answers every GET with the example
  inventory and a POST with a task, the command line
  \<^verbatim>\<open>--do-it --dry-run --image-name Win2019 --subnet Win2019\<close>, a configuration file and
  the line \<^verbatim>\<open>y\<close> typed at the prompt.
\<close>

definition demo_server :: "unit server" where
  "demo_server m url hs body w =
     (if m = ''POST'' then (Some (JObj [(''data'', JObj [(''extId'', JStr ''task-1'')])]), w)
      else (Some demo_inventory, w))"

definition demo_args :: args where
  "demo_args = \<lparr>do_it = True, dry_run = True,
                 arg_image_name = Some ''Win2019'', arg_subnet = Some ''Win2019''\<rparr>"

definition demo_vars :: "string list option" where
  "demo_vars = Some [''# Prism Central'', ''baseUrl = https://pc.example:9440/api'',
                     ''username=admin'', ''password=secret'']"

definition demo_dstate :: "unit dstate" where
  "demo_dstate = \<lparr>dtrace = [], stdin = [''y''], dworld = ()\<rparr>"

section \<open>Facts about the string operations\<close>

lemma str_split_not_Nil: "str_split c s \<noteq> []"
  by (induction s) auto

lemma str_strip_Nil: "str_strip [] = []"
  by (simp add: str_strip_def)

lemma dropWhile_rev_prefix: "\<exists>zs. ys = rev (dropWhile P (rev ys)) @ zs"
  by (metis append_take_drop_id dropWhile_eq_drop rev_append rev_rev_ident)

lemma strip_no_leading:
  assumes "ys = [] \<or> \<not> P (hd ys)"
  shows "dropWhile P (rev (dropWhile P (rev ys))) = rev (dropWhile P (rev ys))"
proof (cases "rev (dropWhile P (rev ys))")
  case Nil
  then show ?thesis by (simp only: dropWhile.simps)
next
  case (Cons a as)
  obtain zs where "ys = rev (dropWhile P (rev ys)) @ zs"
    using dropWhile_rev_prefix by blast
  with Cons have "ys = (a # as) @ zs" by simp
  then have "hd ys = a" "ys \<noteq> []" by auto
  with assms have "\<not> P a" by auto
  with Cons show ?thesis by simp
qed

lemma dropWhile_hd: "dropWhile P s = [] \<or> \<not> P (hd (dropWhile P s))"
  by (metis hd_dropWhile)

lemma str_strip_idem: "str_strip (str_strip s) = str_strip s"
proof -
  have "dropWhile isspace s = [] \<or> \<not> isspace (hd (dropWhile isspace s))"
    by (rule dropWhile_hd)
  from strip_no_leading[of "dropWhile isspace s" isspace, OF this] show ?thesis
    by (simp add: str_strip_def)
qed

section \<open>The loop of the bulk update\<close>

lemma trace_emit [simp]: "trace (emit evs st) = trace st @ evs"
  and sheet_emit [simp]: "sheet (emit evs st) = sheet st"
  and world_emit [simp]: "world (emit evs st) = world st"
  by (simp_all add: emit_def)

lemma emit_emit: "emit evs2 (emit evs1 st) = emit (evs1 @ evs2) st"
  by (simp add: emit_def)

lemma cells_set_cell_other: "r' \<noteq> r \<Longrightarrow> cells (set_cell ws r c x) r' = cells ws r'"
  by (simp add: set_cell_def)

lemma cells_write_status_other: "r' \<noteq> r \<Longrightarrow> cells (write_status ws r sc s) r' = cells ws r'"
  by (simp add: write_status_def cells_set_cell_other split: option.splits)

lemma cells_write_timestamp_other: "r' \<noteq> r \<Longrightarrow> cells (write_timestamp ws r tc t) r' = cells ws r'"
  by (simp add: write_timestamp_def cells_set_cell_other split: option.splits)

lemma update_excel_status_other_rows:
  "r \<noteq> row_index + 2 \<Longrightarrow>
   cells (sheet (update_excel_status env row_index status timestamp st)) r = cells (sheet st) r"
  by (simp add: update_excel_status_def Let_def cells_write_status_other cells_write_timestamp_other
           split: prod.splits bool.splits)

lemma trace_update_excel_status:
  "trace (update_excel_status env row_index status timestamp st) =
   trace st @ [UpdateExcel row_index status timestamp,
               Print (if fst (workbook_io env (world st))
                      then MsgUpdatedExcel status timestamp else MsgErrorUpdatingExcel)]"
  by (simp add: update_excel_status_def Let_def split: prod.splits bool.splits)

lemma make_get_request_sheet:
  "make_get_request env b u h st = (x, st') \<Longrightarrow> sheet st' = sheet st"
  by (auto simp: make_get_request_def Let_def split: prod.splits option.splits)

lemma make_post_request_sheet:
  "make_post_request env b u h p st = (x, st') \<Longrightarrow> sheet st' = sheet st"
  by (auto simp: make_post_request_def Let_def split: prod.splits option.splits)

lemma record_outcome_other_rows:
  "r \<noteq> index + 2 \<Longrightarrow>
   cells (sheet (record_outcome env index post_response st)) r = cells (sheet st) r"
  by (simp add: record_outcome_def Let_def update_excel_status_other_rows split: prod.splits)

lemma process_row_other_rows:
  "r \<noteq> index + 2 \<Longrightarrow>
   cells (sheet (process_row env b h (index, row) st)) r = cells (sheet st) r"
  by (auto simp: process_row_def Let_def record_outcome_other_rows
           dest!: make_get_request_sheet make_post_request_sheet split: prod.splits)

lemma process_rows_other_rows:
  "\<forall>ir \<in> set irs. fst ir + 2 \<noteq> r \<Longrightarrow>
   cells (sheet (process_rows env b h irs st)) r = cells (sheet st) r"
proof (induction irs arbitrary: st)
  case Nil
  then show ?case by (simp add: process_rows_def)
next
  case (Cons ir irs)
  obtain j row where ir: "ir = (j, row)" by (cases ir)
  from Cons.prems ir have j: "r \<noteq> j + 2" by auto
  from Cons.prems have rest: "\<forall>ir \<in> set irs. fst ir + 2 \<noteq> r" by simp
  have "cells (sheet (process_rows env b h (ir # irs) st)) r =
        cells (sheet (process_rows env b h irs (process_row env b h ir st))) r"
    by (simp add: process_rows_def)
  also have "\<dots> = cells (sheet (process_row env b h ir st)) r"
    using Cons.IH[OF rest] by simp
  also have "\<dots> = cells (sheet st) r"
    using process_row_other_rows[OF j] ir by simp
  finally show ?case .
qed

lemma process_rows_append:
  "process_rows env b h (xs @ ys) st = process_rows env b h ys (process_rows env b h xs st)"
  by (simp add: process_rows_def)

lemma process_rows_Cons:
  "process_rows env b h (x # xs) st = process_rows env b h xs (process_row env b h x st)"
  by (simp add: process_rows_def)

lemma enumerate_split:
  "enumerate 0 (pre @ x # post) = enumerate 0 pre @ (length pre, x) # enumerate (Suc (length pre)) post"
  by (simp add: enumerate_append_eq)

lemma fst_enumerate_lt: "ir \<in> set (enumerate 0 pre) \<Longrightarrow> fst ir < length pre"
  by (auto simp: in_set_enumerate_eq)

lemma fst_enumerate_ge: "ir \<in> set (enumerate n post) \<Longrightarrow> n \<le> fst ir"
  by (auto simp: in_set_enumerate_eq)

lemma run_row_unchanged:
  assumes skip: "\<And>st. sheet (process_row env b h (length pre, row) st) = sheet st"
  shows "cells (sheet (process_rows env b h (enumerate 0 (pre @ row # post)) st)) (length pre + 2)
         = cells (sheet st) (length pre + 2)"
proof -
  let ?r = "length pre + 2"
  have a: "\<forall>ir \<in> set (enumerate 0 pre). fst ir + 2 \<noteq> ?r"
    using fst_enumerate_lt by fastforce
  have b: "\<forall>ir \<in> set (enumerate (Suc (length pre)) post). fst ir + 2 \<noteq> ?r"
    using fst_enumerate_ge by fastforce
  let ?s1 = "process_rows env b h (enumerate 0 pre) st"
  let ?s2 = "process_row env b h (length pre, row) ?s1"
  have "process_rows env b h (enumerate 0 (pre @ row # post)) st =
        process_rows env b h (enumerate (Suc (length pre)) post) ?s2"
    by (simp only: enumerate_split process_rows_append process_rows_Cons)
  then have "cells (sheet (process_rows env b h (enumerate 0 (pre @ row # post)) st)) ?r =
        cells (sheet ?s2) ?r"
    using process_rows_other_rows[OF b] by simp
  also have "\<dots> = cells (sheet ?s1) ?r"
    by (simp only: skip)
  also have "\<dots> = cells (sheet st) ?r"
    by (rule process_rows_other_rows[OF a])
  finally show ?thesis .
qed


lemma process_row_not_ok:
  "\<not> match_ok row \<Longrightarrow>
   process_row env b h (index, row) st =
   emit [Print (MsgSkipNotOK (index + 1)
           (str_strip (row_get row ''VM Name/extId & Category exId(s) Match'')))] st"
  by (simp add: process_row_def match_ok_def Let_def)

lemma process_row_missing_data:
  "match_ok row \<Longrightarrow> \<not> has_required_data row \<Longrightarrow>
   process_row env b h (index, row) st = emit [Print (MsgSkipMissingData (index + 1))] st"
  by (auto simp add: process_row_def match_ok_def has_required_data_def Let_def)

lemma process_row_no_categories:
  "match_ok row \<Longrightarrow> has_required_data row \<Longrightarrow> row_category_uuids row = [] \<Longrightarrow>
   process_row env b h (index, row) st =
   emit [Print (MsgProcessingVM (str_strip (row_get row ''VM Name''))
                  (str_strip (row_get row ''VM extId''))
                  (str_strip (row_get row ''Category UUID(s)''))),
         Print (MsgNoValidCategories (str_strip (row_get row ''VM Name'')))] st"
  by (simp add: process_row_def match_ok_def has_required_data_def row_category_uuids_def
        Let_def emit_emit)

lemma process_row_no_token:
  assumes "match_ok row" "has_required_data row" "row_category_uuids row \<noteq> []"
    and "no_token (fst (get_reply env b h row st))"
  shows "process_row env b h (index, row) st =
     (emit [Print (MsgProcessingVM (str_strip (row_get row ''VM Name''))
                  (str_strip (row_get row ''VM extId''))
                  (str_strip (row_get row ''Category UUID(s)''))),
            Print (MsgMakingGet (vm_get_url b row)),
            HttpGet (vm_get_url b row) h,
            Print (case fst (get_reply env b h row st) of
                     None \<Rightarrow> MsgErrorGet | Some r \<Rightarrow> MsgVmETag []),
            Print (MsgFailedToGetETag (str_strip (row_get row ''VM Name'')))] st)
       \<lparr>world := snd (get_reply env b h row st)\<rparr>"
  using assms
  by (auto simp add: process_row_def match_ok_def has_required_data_def row_category_uuids_def
        Let_def emit_def make_get_request_def get_reply_def vm_get_url_def no_token_def
        split: prod.splits option.splits)

lemma trace_record_outcome_accepted:
  "post_response = Some r \<Longrightarrow> status_code r = 202 \<Longrightarrow>
   trace (record_outcome env index post_response st) =
   trace st @ [Print (MsgAccepted (headers_get_etag r)),
               UpdateExcel index ''ACCEPTED'' (fst (strftime_now env (world st))),
               Print (if fst (workbook_io env (snd (strftime_now env (world st))))
                      then MsgUpdatedExcel ''ACCEPTED'' (fst (strftime_now env (world st)))
                      else MsgErrorUpdatingExcel)]"
  by (simp add: record_outcome_def truthy_response_def response_ok_def Let_def
        trace_update_excel_status split: prod.splits)

lemma trace_record_outcome_no_response:
  "trace (record_outcome env index None st) =
   trace st @ [Print (MsgFailed ''N/A''),
               UpdateExcel index ''FAILED (N/A)'' (fst (strftime_now env (world st))),
               Print (if fst (workbook_io env (snd (strftime_now env (world st))))
                      then MsgUpdatedExcel ''FAILED (N/A)'' (fst (strftime_now env (world st)))
                      else MsgErrorUpdatingExcel)]"
  by (simp add: record_outcome_def truthy_response_def Let_def
        trace_update_excel_status split: prod.splits)

lemma trace_record_outcome_other_status:
  "post_response = Some r \<Longrightarrow> status_code r \<noteq> 202 \<Longrightarrow>
   \<not> (400 \<le> status_code r \<and> status_code r < 600) \<Longrightarrow>
   trace (record_outcome env index post_response st) =
   trace st @ [Print (MsgFailed (str_of_nat (status_code r))),
               UpdateExcel index (''FAILED ('' @ str_of_nat (status_code r) @ '')'')
                 (fst (strftime_now env (world st))),
               Print (if fst (workbook_io env (snd (strftime_now env (world st))))
                      then MsgUpdatedExcel (''FAILED ('' @ str_of_nat (status_code r) @ '')'')
                             (fst (strftime_now env (world st)))
                      else MsgErrorUpdatingExcel)]"
  by (simp add: record_outcome_def truthy_response_def response_ok_def Let_def
        trace_update_excel_status split: prod.splits)

lemma trace_record_outcome_error_status:
  "post_response = Some r \<Longrightarrow> 400 \<le> status_code r \<Longrightarrow> status_code r < 600 \<Longrightarrow>
   trace (record_outcome env index post_response st) =
   trace st @ [Print (MsgFailed ''N/A''),
               UpdateExcel index ''FAILED (N/A)'' (fst (strftime_now env (world st))),
               Print (if fst (workbook_io env (snd (strftime_now env (world st))))
                      then MsgUpdatedExcel ''FAILED (N/A)'' (fst (strftime_now env (world st)))
                      else MsgErrorUpdatingExcel)]"
  by (simp add: record_outcome_def truthy_response_def response_ok_def Let_def
        trace_update_excel_status split: prod.splits)

lemma sheet_main_explicit:
  "sheet (snd (main env inp st0)) =
   (if fst (main env inp st0) = Completed
    then sheet (process_rows env (vars_get (the (read_vars_file (vars_txt inp))) ''baseUrl'')
            (the (create_auth_header (vars_get (the (read_vars_file (vars_txt inp))) ''username'')
                   (vars_get (the (read_vars_file (vars_txt inp))) ''password'')))
            (enumerate 0 (the (read_excel inp)))
            (loop_start inp st0))
    else sheet st0)"
  by (auto simp: main_def Let_def emit_emit loop_start_def split: option.splits)

lemma sheet_main:
  assumes "read_excel inp = Some df"
  shows "sheet (snd (main env inp st0)) = sheet st0 \<or>
   (\<exists>b h st. sheet st = sheet st0 \<and>
       sheet (snd (main env inp st0)) = sheet (process_rows env b h (enumerate 0 df) st))"
proof (cases "fst (main env inp st0) = Completed")
  case False
  then show ?thesis by (simp add: sheet_main_explicit)
next
  case True
  have "sheet (loop_start inp st0) = sheet st0" by (simp add: loop_start_def)
  moreover from True assms have "sheet (snd (main env inp st0)) =
      sheet (process_rows env (vars_get (the (read_vars_file (vars_txt inp))) ''baseUrl'')
            (the (create_auth_header (vars_get (the (read_vars_file (vars_txt inp))) ''username'')
                   (vars_get (the (read_vars_file (vars_txt inp))) ''password'')))
            (enumerate 0 df) (loop_start inp st0))"
    by (simp add: sheet_main_explicit)
  ultimately show ?thesis by blast
qed

lemma main_row_unchanged:
  assumes df: "read_excel inp = Some (pre @ row # post)"
    and skip: "\<And>b h st. sheet (process_row env b h (length pre, row) st) = sheet (st :: 'w state)"
  shows "cells (sheet (snd (main env inp st0))) (length pre + 2) = cells (sheet st0) (length pre + 2)"
proof -
  from sheet_main[OF df, of env st0] show ?thesis
  proof
    assume "sheet (snd (main env inp st0)) = sheet st0"
    then show ?thesis by simp
  next
    assume "\<exists>b h st. sheet st = sheet st0 \<and>
       sheet (snd (main env inp st0)) = sheet (process_rows env b h (enumerate 0 (pre @ row # post)) st)"
    then obtain b h st where st: "sheet st = sheet st0"
      and m: "sheet (snd (main env inp st0)) = sheet (process_rows env b h (enumerate 0 (pre @ row # post)) st)"
      by blast
    have "cells (sheet (process_rows env b h (enumerate 0 (pre @ row # post)) st)) (length pre + 2)
          = cells (sheet st) (length pre + 2)"
      by (rule run_row_unchanged) (rule skip)
    with st m show ?thesis by simp
  qed
qed


section \<open>Running the bulk update on examples\<close>

lemma demo_main:
  "main script_env (demo_inputs df) st =
   (Completed,
    emit [Print MsgCompleted]
      (process_rows script_env ''https://pc.example:9440/api''
         [(''Authorization'', ''Basic YWRtaW46c2VjcmV0'')] (enumerate 0 df)
         (emit [Print MsgStarting, Print (MsgUsing ''https://pc.example:9440/api'' ''admin''),
                Print (MsgLoadedExcel (length df))] st)))"
  by (simp add: main_def read_vars_file_def vars_line_def split_once_def vars_get_def
        create_auth_header_def b64encode_def b64_alphabet_def demo_inputs_def str_strip_def
        isspace_def Let_def emit_def)

lemma max_column_demo_sheet: "max_column demo_sheet = 6"
  by (simp add: demo_sheet_def)

lemma demo_find_columns:
  "find_columns demo_sheet [1 ..< max_column demo_sheet + 1] (None, None) = (Some 5, Some 6)"
  by (simp add: demo_sheet_def demo_headers_def empty_xlcell_def header_has_def str_upper_def
        upper_codes_def codes_def upt_rec)

lemma script_env_simps:
  "requests_get script_env url hs (gs, ps) =
     (case gs of [] \<Rightarrow> (None, ([], ps)) | g # gs' \<Rightarrow> (g, (gs', ps)))"
  "requests_post script_env url hs body (gs, ps) =
     (case ps of [] \<Rightarrow> (None, (gs, [])) | p # ps' \<Rightarrow> (p, (gs, ps')))"
  "uuid4 script_env w = (''0b9a2f0e-5d3c-4c1e-9a57-3d2f8f1f6a10'', w)"
  "strftime_now script_env w = (''04112026-1200'', w)"
  "workbook_io script_env w = (True, w)"
  by (simp_all add: script_env_def)

lemma update_excel_status_found:
  "workbook_io env (world st) = (True, w) \<Longrightarrow>
   find_columns (sheet st) [1 ..< max_column (sheet st) + 1] (None, None) = (sc, tc) \<Longrightarrow>
   update_excel_status env i status ts st =
   st\<lparr>trace := trace st @ [UpdateExcel i status ts, Print (MsgUpdatedExcel status ts)],
      sheet := write_timestamp (write_status (sheet st) (i + 2) sc status) (i + 2) tc ts,
      world := w\<rparr>"
  by (simp add: update_excel_status_def Let_def emit_def)

lemma demo_update_excel_status:
  "update_excel_status script_env i status ts \<lparr>trace = evs, sheet = demo_sheet, world = w\<rparr> =
   \<lparr>trace = evs @ [UpdateExcel i status ts, Print (MsgUpdatedExcel status ts)],
    sheet = write_timestamp (write_status demo_sheet (i + 2) (Some 5) status) (i + 2) (Some 6) ts,
    world = w\<rparr>"
proof -
  let ?st = "\<lparr>trace = evs, sheet = demo_sheet, world = w\<rparr>"
  have a: "workbook_io script_env (world ?st) = (True, w)"
    by (simp add: script_env_simps)
  have b: "find_columns (sheet ?st) [1 ..< max_column (sheet ?st) + 1] (None, None)
           = (Some 5, Some 6)"
    by (simp only: state.select_convs demo_find_columns)
  show ?thesis
    using update_excel_status_found[OF a b, of i status ts] by simp
qed

lemmas row_defs =
  process_rows_def process_row_def record_outcome_def mk_row_def row_get_def str_strip_def
  isspace_def str_upper_def upper_codes_def codes_def emit_def parse_category_uuids_def
  demo_state_def make_get_request_def make_post_request_def headers_get_etag_def
  demo_update_excel_status script_env_simps
  truthy_response_def response_ok_def build_categories_payload_def Let_def

lemmas sheet_defs = write_status_def write_timestamp_def set_cell_def


section \<open>The category payload\<close>

lemma build_categories_eq:
  "build_categories xs =
   map (\<lambda>t. JObj [(''extId'', JStr t)]) (filter (\<lambda>t. t \<noteq> []) (map str_strip xs))"
  by (induction xs) (auto simp: Let_def)

lemma parse_category_uuids_eq:
  "parse_category_uuids s = filter (\<lambda>t. t \<noteq> []) (map str_strip (str_split CHR '','' s))"
  by (simp add: parse_category_uuids_def filter_map comp_def)

lemma filter_strip_idem:
  "filter (\<lambda>t. t \<noteq> []) (map str_strip (filter (\<lambda>t. t \<noteq> []) (map str_strip xs))) =
   filter (\<lambda>t. t \<noteq> []) (map str_strip xs)"
  by (induction xs) (auto simp: str_strip_idem)

text \<open>
  Claim C5. The payload that \<^verbatim>\<open>main\<close> builds from the comma-separated cell is
  \<^verbatim>\<open>{"categories": [{"extId": t}, ...]}\<close> where the \<open>t\<close> are the pieces of the string
  between its commas, stripped, the empty ones dropped, in their order and with
  repetitions kept. (\<^verbatim>\<open>main\<close> strips and filters once and \<^verbatim>\<open>build_categories_payload\<close>
  once more; the second pass changes nothing.)
\<close>

theorem categories_payload_is_trimmed_segments:
  "build_categories_payload (parse_category_uuids s) =
   JObj [(''categories'',
          JList (map (\<lambda>t. JObj [(''extId'', JStr t)])
                   (filter (\<lambda>t. t \<noteq> []) (map str_strip (str_split CHR '','' s)))))]"
  by (simp only: build_categories_payload_def build_categories_eq parse_category_uuids_eq
        filter_strip_idem)

section \<open>The configuration loaders\<close>

text \<open>
  Claim C7. The loader of \<^verbatim>\<open>update_categories_for_vm.py\<close> has no test for comment lines:
  the line \<^verbatim>\<open>#password=old\<close> puts the key \<^verbatim>\<open>#password\<close> into the mapping it returns. The
  loader of \<^verbatim>\<open>deploy_windows_vm.py\<close> returns the mapping unchanged for the same line.
\<close>

theorem read_vars_file_comment_line_is_stored:
  "the (read_vars_file (Some [''#password=old''])) ''#password'' = Some ''old'' \<and>
   deploy_vars_line ''#password=old'' Map.empty ''#password'' = None"
  by (simp add: read_vars_file_def vars_line_def deploy_vars_line_def str_strip_def
        isspace_def split_once_def)

section \<open>Recording the outcome of the write\<close>

text \<open>
  Claim C1. A run on one eligible row whose GET returns the ETag \<^verbatim>\<open>W/abc\<close> and whose POST
  is answered with status 412: the reply is false as a truth value, so the row is marked
  \<^verbatim>\<open>FAILED (N/A)\<close>, in the call of \<^verbatim>\<open>update_excel_status\<close> and in the status cell, and the
  status code 412 is lost.
\<close>

theorem post_412_is_marked_failed_na:
  "filter is_update
     (trace (snd (main script_env (demo_inputs [mk_row ''vm1'' ''id1'' ''OK'' ''c1,c2''])
        (demo_state [Some \<lparr>status_code = 200, etag_header = Some ''W/abc''\<rparr>]
                    [Some \<lparr>status_code = 412, etag_header = None\<rparr>])))) =
   [UpdateExcel 0 ''FAILED (N/A)'' ''04112026-1200''] \<and>
   cell_value (cells (sheet (snd (main script_env (demo_inputs [mk_row ''vm1'' ''id1'' ''OK'' ''c1,c2''])
        (demo_state [Some \<lparr>status_code = 200, etag_header = Some ''W/abc''\<rparr>]
                    [Some \<lparr>status_code = 412, etag_header = None\<rparr>])))) 2 5) =
   Some (CStr ''FAILED (N/A)'')"
  unfolding demo_main snd_conv by (simp add: row_defs sheet_defs)


section \<open>Rows the loop skips\<close>

text \<open>
  Claim C3, as the code has it. The flag is stripped and upper-cased before it is compared
  with \<^verbatim>\<open>OK\<close>. A row whose flag, so normalised, is not \<^verbatim>\<open>OK\<close> adds one printed line to
  the run and nothing else: no request is sent, \<^verbatim>\<open>update_excel_status\<close> is not called, the
  sheet and the world stay as they were, and the rows after it are processed from that
  state. In a whole run of \<^verbatim>\<open>main\<close> the sheet row of such a record (row \<open>index + 2\<close>) ends
  as it began.
\<close>

theorem row_not_ok_is_skipped:
  assumes "\<not> match_ok row"
  shows "process_rows env b h ((index, row) # rest) st =
         process_rows env b h rest
           (emit [Print (MsgSkipNotOK (index + 1)
                    (str_strip (row_get row ''VM Name/extId & Category exId(s) Match'')))] st)
       \<and> (read_excel inp = Some (pre @ row # post) \<longrightarrow>
            cells (sheet (snd (main env inp st0))) (length pre + 2) =
            cells (sheet st0) (length pre + 2))"
proof -
  have skip: "\<And>b h st. sheet (process_row env b h (length pre, row) st) = sheet (st :: 'a state)"
    using assms by (simp add: process_row_not_ok)
  show ?thesis
    using assms main_row_unchanged[of inp pre row post env st0, OF _ skip]
    by (simp add: process_rows_Cons process_row_not_ok)
qed

text \<open>The table of the specification: \<^verbatim>\<open>vm1\<close> with flag \<^verbatim>\<open>OK\<close>, then \<^verbatim>\<open>vm2\<close> with flag
  \<^verbatim>\<open>SKIP\<close>; the second record is skipped and its sheet row 3 is unchanged.\<close>

theorem row_not_ok_is_skipped_witness:
  "\<not> match_ok (mk_row ''vm2'' ''id2'' ''SKIP'' ''c3'') \<and>
   process_rows script_env ''https://pc.example:9440/api'' [] [(1, mk_row ''vm2'' ''id2'' ''SKIP'' ''c3'')]
     (demo_state [] []) =
   \<lparr>trace = [Print (MsgSkipNotOK 2 ''SKIP'')], sheet = demo_sheet, world = ([], [])\<rparr> \<and>
   cells (sheet (snd (main script_env
       (demo_inputs [mk_row ''vm1'' ''id1'' ''OK'' ''c1,c2'', mk_row ''vm2'' ''id2'' ''SKIP'' ''c3''])
       (demo_state [Some \<lparr>status_code = 200, etag_header = Some ''W/abc''\<rparr>]
                   [Some \<lparr>status_code = 202, etag_header = Some ''W/abd''\<rparr>])))) 3 =
   cells demo_sheet 3"
proof -
  have n: "\<not> match_ok (mk_row ''vm2'' ''id2'' ''SKIP'' ''c3'')"
    by (simp add: match_ok_def mk_row_def row_get_def str_strip_def isspace_def str_upper_def
          upper_codes_def codes_def)
  have d: "read_excel (demo_inputs [mk_row ''vm1'' ''id1'' ''OK'' ''c1,c2'', mk_row ''vm2'' ''id2'' ''SKIP'' ''c3''])
           = Some ([mk_row ''vm1'' ''id1'' ''OK'' ''c1,c2''] @ mk_row ''vm2'' ''id2'' ''SKIP'' ''c3'' # [])"
    by (simp add: demo_inputs_def)
  from row_not_ok_is_skipped[OF n, where env = script_env
      and b = "''https://pc.example:9440/api''" and h = "[]" and index = 1 and rest = "[]"
      and st = "demo_state [] []"
      and inp = "demo_inputs [mk_row ''vm1'' ''id1'' ''OK'' ''c1,c2'', mk_row ''vm2'' ''id2'' ''SKIP'' ''c3'']"
      and pre = "[mk_row ''vm1'' ''id1'' ''OK'' ''c1,c2'']" and post = "[]"
      and ?st0.0 = "demo_state [Some \<lparr>status_code = 200, etag_header = Some ''W/abc''\<rparr>]
                   [Some \<lparr>status_code = 202, etag_header = Some ''W/abd''\<rparr>]"] d n
  show ?thesis
    by (simp add: process_rows_def emit_def demo_state_def mk_row_def row_get_def str_strip_def
          isspace_def numeral_3_eq_3)
qed

text \<open>
  Claim C3, as stated, fails: the flag \<^verbatim>\<open>ok\<close> is not the string \<^verbatim>\<open>OK\<close>, yet the run sends
  the GET and the POST for the row and marks it ACCEPTED.
\<close>

theorem lower_case_ok_row_is_processed:
  "row_get (mk_row ''vm1'' ''id1'' ''ok'' ''c1'') ''VM Name/extId & Category exId(s) Match'' \<noteq> ''OK'' \<and>
   length (filter is_http
     (trace (snd (main script_env (demo_inputs [mk_row ''vm1'' ''id1'' ''ok'' ''c1''])
        (demo_state [Some \<lparr>status_code = 200, etag_header = Some ''W/abc''\<rparr>]
                    [Some \<lparr>status_code = 202, etag_header = Some ''W/abd''\<rparr>]))))) = 2 \<and>
   filter is_update
     (trace (snd (main script_env (demo_inputs [mk_row ''vm1'' ''id1'' ''ok'' ''c1''])
        (demo_state [Some \<lparr>status_code = 200, etag_header = Some ''W/abc''\<rparr>]
                    [Some \<lparr>status_code = 202, etag_header = Some ''W/abd''\<rparr>])))) =
   [UpdateExcel 0 ''ACCEPTED'' ''04112026-1200'']"
  unfolding demo_main snd_conv by (simp add: row_defs)


text \<open>
  The test for required data (line 224) is made on the text of the three cells. A row
  whose flag is \<^verbatim>\<open>OK\<close> and in which the text of the VM name, the VM extId or the category
  cell is empty after stripping adds the one line "Skipping row ...: Missing required data"
  to the run: no request is sent, \<^verbatim>\<open>update_excel_status\<close> is not called, sheet and world stay
  as they were, and the rows after it are processed from that state. In a whole run of
  \<^verbatim>\<open>main\<close> the sheet row of such a record ends as it began.
\<close>

lemma ok_row_missing_data_is_skipped:
  assumes "match_ok row" and "\<not> has_required_data row"
  shows "process_rows env b h ((index, row) # rest) st =
         process_rows env b h rest (emit [Print (MsgSkipMissingData (index + 1))] st)
       \<and> (read_excel inp = Some (pre @ row # post) \<longrightarrow>
            cells (sheet (snd (main env inp st0))) (length pre + 2) =
            cells (sheet st0) (length pre + 2))"
proof -
  have skip: "\<And>b h st. sheet (process_row env b h (length pre, row) st) = sheet (st :: 'a state)"
    using assms by (simp add: process_row_missing_data)
  show ?thesis
    using assms main_row_unchanged[of inp pre row post env st0, OF _ skip]
    by (simp add: process_rows_Cons process_row_missing_data)
qed

text \<open>A row with a blank VM extId, followed by a row that is processed and marked.\<close>

lemma ok_row_missing_data_is_skipped_example:
  "match_ok (mk_row ''vm1'' ''  '' ''OK'' ''c1'') \<and>
   \<not> has_required_data (mk_row ''vm1'' ''  '' ''OK'' ''c1'') \<and>
   process_rows script_env ''https://pc.example:9440/api'' [] [(0, mk_row ''vm1'' ''  '' ''OK'' ''c1'')]
     (demo_state [] []) =
   \<lparr>trace = [Print (MsgSkipMissingData 1)], sheet = demo_sheet, world = ([], [])\<rparr> \<and>
   cells (sheet (snd (main script_env
       (demo_inputs [mk_row ''vm1'' ''  '' ''OK'' ''c1'', mk_row ''vm2'' ''id2'' ''OK'' ''c3''])
       (demo_state [Some \<lparr>status_code = 200, etag_header = Some ''W/abc''\<rparr>]
                   [Some \<lparr>status_code = 202, etag_header = Some ''W/abd''\<rparr>])))) 2 =
   cells demo_sheet 2"
proof -
  have m: "match_ok (mk_row ''vm1'' ''  '' ''OK'' ''c1'')"
    by (simp add: match_ok_def mk_row_def row_get_def str_strip_def isspace_def str_upper_def
          upper_codes_def codes_def)
  have n: "\<not> has_required_data (mk_row ''vm1'' ''  '' ''OK'' ''c1'')"
    by (simp add: has_required_data_def mk_row_def row_get_def str_strip_def isspace_def)
  have d: "read_excel (demo_inputs [mk_row ''vm1'' ''  '' ''OK'' ''c1'', mk_row ''vm2'' ''id2'' ''OK'' ''c3''])
           = Some ([] @ mk_row ''vm1'' ''  '' ''OK'' ''c1'' # [mk_row ''vm2'' ''id2'' ''OK'' ''c3''])"
    by (simp add: demo_inputs_def)
  from ok_row_missing_data_is_skipped[OF m n, where env = script_env
      and b = "''https://pc.example:9440/api''" and h = "[]" and index = 0 and rest = "[]"
      and st = "demo_state [] []"
      and inp = "demo_inputs [mk_row ''vm1'' ''  '' ''OK'' ''c1'', mk_row ''vm2'' ''id2'' ''OK'' ''c3'']"
      and pre = "[]" and post = "[mk_row ''vm2'' ''id2'' ''OK'' ''c3'']"
      and ?st0.0 = "demo_state [Some \<lparr>status_code = 200, etag_header = Some ''W/abc''\<rparr>]
                   [Some \<lparr>status_code = 202, etag_header = Some ''W/abd''\<rparr>]"] d m n
  show ?thesis
    by (simp add: process_rows_def emit_def demo_state_def numeral_2_eq_2)
qed

text \<open>
  The test for identifiers (line 235) is made on the pieces of that text. An eligible row
  in which the text of the category cell yields no identifier after splitting at the
  commas, stripping and dropping the empty pieces adds only printed lines to the run:
  either the two lines of the "No valid category UUIDs" path or, when the text is empty
  altogether, the "Missing required data" line. No request is sent and
  \<^verbatim>\<open>update_excel_status\<close> is not called.
\<close>

lemma empty_category_list_is_skipped:
  assumes "match_ok row" and "row_category_uuids row = []"
  shows "process_rows env b h ((index, row) # rest) st =
         process_rows env b h rest
           (emit (if has_required_data row
                  then [Print (MsgProcessingVM (str_strip (row_get row ''VM Name''))
                                 (str_strip (row_get row ''VM extId''))
                                 (str_strip (row_get row ''Category UUID(s)''))),
                        Print (MsgNoValidCategories (str_strip (row_get row ''VM Name'')))]
                  else [Print (MsgSkipMissingData (index + 1))]) st)"
  using assms
  by (simp add: process_rows_Cons process_row_missing_data process_row_no_categories)

text \<open>The cell \<^verbatim>\<open>" , ,"\<close>: commas and blanks only.\<close>

lemma empty_category_list_is_skipped_example:
  "match_ok (mk_row ''vm1'' ''id1'' ''OK'' '' , ,'') \<and>
   row_category_uuids (mk_row ''vm1'' ''id1'' ''OK'' '' , ,'') = [] \<and>
   process_rows script_env ''https://pc.example:9440/api'' [] [(0, mk_row ''vm1'' ''id1'' ''OK'' '' , ,'')]
     (demo_state [] []) =
   \<lparr>trace = [Print (MsgProcessingVM ''vm1'' ''id1'' '', ,''), Print (MsgNoValidCategories ''vm1'')],
    sheet = demo_sheet, world = ([], [])\<rparr>"
proof -
  have m: "match_ok (mk_row ''vm1'' ''id1'' ''OK'' '' , ,'')"
    by (simp add: match_ok_def mk_row_def row_get_def str_strip_def isspace_def str_upper_def
          upper_codes_def codes_def)
  have n: "row_category_uuids (mk_row ''vm1'' ''id1'' ''OK'' '' , ,'') = []"
    by (simp add: row_category_uuids_def parse_category_uuids_def mk_row_def row_get_def
          str_strip_def isspace_def)
  have r: "has_required_data (mk_row ''vm1'' ''id1'' ''OK'' '' , ,'')"
    by (simp add: has_required_data_def mk_row_def row_get_def str_strip_def isspace_def)
  from empty_category_list_is_skipped[OF m n, where env = script_env
      and b = "''https://pc.example:9440/api''" and h = "[]" and index = 0 and rest = "[]"
      and st = "demo_state [] []"] m n r
  show ?thesis
    by (simp add: process_rows_def emit_def demo_state_def mk_row_def row_get_def str_strip_def
          isspace_def)
qed

subsection \<open>Cells left empty in the workbook\<close>

text \<open>
  A cell that is empty in the workbook reaches the script as \<^verbatim>\<open>nan\<close>, and \<^verbatim>\<open>str\<close> turns it
  into the three letters \<^verbatim>\<open>nan\<close>: neither of the two tests above sees an empty text.
\<close>

lemma nan_cell_is_not_empty: "str_strip (py_str CNaN) = ''nan''"
  by (simp add: str_strip_def isspace_def)

text \<open>
  Claim C4. A run on one eligible row whose category cell is empty in the workbook, with
  the GET returning the ETag \<^verbatim>\<open>W/abc\<close> and the POST answered with status 202. The row passes
  the test for required data, its list of identifiers is the one entry \<^verbatim>\<open>nan\<close>, the GET and
  the POST are sent, the POST carrying the category \<^verbatim>\<open>nan\<close>, and the row is marked
  \<^verbatim>\<open>ACCEPTED\<close>, in the call of \<^verbatim>\<open>update_excel_status\<close> and in the status cell: the row with
  no category is neither skipped nor kept from being marked ACCEPTED.
\<close>

theorem empty_category_cell_is_posted_as_nan:
  "has_required_data (row_of_cells (CStr ''vm1'') (CStr ''id1'') (CStr ''OK'') CNaN) \<and>
   row_category_uuids (row_of_cells (CStr ''vm1'') (CStr ''id1'') (CStr ''OK'') CNaN) = [''nan''] \<and>
   filter is_http
     (trace (snd (main script_env
        (demo_inputs [row_of_cells (CStr ''vm1'') (CStr ''id1'') (CStr ''OK'') CNaN])
        (demo_state [Some \<lparr>status_code = 200, etag_header = Some ''W/abc''\<rparr>]
                    [Some \<lparr>status_code = 202, etag_header = None\<rparr>])))) =
   [HttpGet ''https://pc.example:9440/api/vmm/v4.1/ahv/config/vms/id1''
      [(''Authorization'', ''Basic YWRtaW46c2VjcmV0'')],
    HttpPost ''https://pc.example:9440/api/vmm/v4.1/ahv/config/vms/id1/$actions/associate-categories''
      [(''Authorization'', ''Basic YWRtaW46c2VjcmV0''), (''If-Match'', ''W/abc''),
       (''NTNX-Request-Id'', ''0b9a2f0e-5d3c-4c1e-9a57-3d2f8f1f6a10''),
       (''Content-Type'', ''application/json'')]
      (JObj [(''categories'', JList [JObj [(''extId'', JStr ''nan'')]])])] \<and>
   filter is_update
     (trace (snd (main script_env
        (demo_inputs [row_of_cells (CStr ''vm1'') (CStr ''id1'') (CStr ''OK'') CNaN])
        (demo_state [Some \<lparr>status_code = 200, etag_header = Some ''W/abc''\<rparr>]
                    [Some \<lparr>status_code = 202, etag_header = None\<rparr>])))) =
   [UpdateExcel 0 ''ACCEPTED'' ''04112026-1200''] \<and>
   cell_value (cells (sheet (snd (main script_env
        (demo_inputs [row_of_cells (CStr ''vm1'') (CStr ''id1'') (CStr ''OK'') CNaN])
        (demo_state [Some \<lparr>status_code = 200, etag_header = Some ''W/abc''\<rparr>]
                    [Some \<lparr>status_code = 202, etag_header = None\<rparr>])))) 2 5) =
   Some (CStr ''ACCEPTED'')"
  unfolding demo_main snd_conv
  by (simp add: row_defs sheet_defs row_of_cells_def has_required_data_def row_category_uuids_def)

text \<open>
  Claim C10. A run on one row whose flag is \<^verbatim>\<open>OK\<close> and whose VM extId cell is empty in the
  workbook, with the GET returning the ETag \<^verbatim>\<open>W/abc\<close> and the POST answered with status 202.
  The row passes the test for required data; the GET and the POST are sent, for the VM
  \<^verbatim>\<open>nan\<close>, and status and timestamp are written to the row: the row with the empty cell is
  not skipped.
\<close>

theorem empty_extid_cell_is_requested_as_nan:
  "match_ok (row_of_cells (CStr ''vm1'') CNaN (CStr ''OK'') (CStr ''c1'')) \<and>
   has_required_data (row_of_cells (CStr ''vm1'') CNaN (CStr ''OK'') (CStr ''c1'')) \<and>
   filter is_http
     (trace (snd (main script_env
        (demo_inputs [row_of_cells (CStr ''vm1'') CNaN (CStr ''OK'') (CStr ''c1'')])
        (demo_state [Some \<lparr>status_code = 200, etag_header = Some ''W/abc''\<rparr>]
                    [Some \<lparr>status_code = 202, etag_header = None\<rparr>])))) =
   [HttpGet ''https://pc.example:9440/api/vmm/v4.1/ahv/config/vms/nan''
      [(''Authorization'', ''Basic YWRtaW46c2VjcmV0'')],
    HttpPost ''https://pc.example:9440/api/vmm/v4.1/ahv/config/vms/nan/$actions/associate-categories''
      [(''Authorization'', ''Basic YWRtaW46c2VjcmV0''), (''If-Match'', ''W/abc''),
       (''NTNX-Request-Id'', ''0b9a2f0e-5d3c-4c1e-9a57-3d2f8f1f6a10''),
       (''Content-Type'', ''application/json'')]
      (JObj [(''categories'', JList [JObj [(''extId'', JStr ''c1'')]])])] \<and>
   filter is_update
     (trace (snd (main script_env
        (demo_inputs [row_of_cells (CStr ''vm1'') CNaN (CStr ''OK'') (CStr ''c1'')])
        (demo_state [Some \<lparr>status_code = 200, etag_header = Some ''W/abc''\<rparr>]
                    [Some \<lparr>status_code = 202, etag_header = None\<rparr>])))) =
   [UpdateExcel 0 ''ACCEPTED'' ''04112026-1200''] \<and>
   cell_value (cells (sheet (snd (main script_env
        (demo_inputs [row_of_cells (CStr ''vm1'') CNaN (CStr ''OK'') (CStr ''c1'')])
        (demo_state [Some \<lparr>status_code = 200, etag_header = Some ''W/abc''\<rparr>]
                    [Some \<lparr>status_code = 202, etag_header = None\<rparr>])))) 2 5) =
   Some (CStr ''ACCEPTED'') \<and>
   cell_value (cells (sheet (snd (main script_env
        (demo_inputs [row_of_cells (CStr ''vm1'') CNaN (CStr ''OK'') (CStr ''c1'')])
        (demo_state [Some \<lparr>status_code = 200, etag_header = Some ''W/abc''\<rparr>]
                    [Some \<lparr>status_code = 202, etag_header = None\<rparr>])))) 2 6) =
   Some (CStr ''04112026-1200'')"
  unfolding demo_main snd_conv
  by (simp add: row_defs sheet_defs row_of_cells_def has_required_data_def match_ok_def)


section \<open>Rows whose read returns no token\<close>

text \<open>
  Claim C2, as the code has it. For an eligible row with its data and at least one
  identifier, when the GET raises or its reply has no ETag or an empty one, the run gains
  the GET and four printed lines and nothing else: no POST is sent and
  \<^verbatim>\<open>update_excel_status\<close> is not called, so nothing is written to the row; the sheet is
  unchanged and the rows after it are processed.
\<close>

theorem row_without_token_is_abandoned:
  assumes "match_ok row" and "has_required_data row" and "row_category_uuids row \<noteq> []"
    and "no_token (fst (get_reply env b h row st))"
  shows "process_rows env b h ((index, row) # rest) st =
         process_rows env b h rest
           ((emit [Print (MsgProcessingVM (str_strip (row_get row ''VM Name''))
                            (str_strip (row_get row ''VM extId''))
                            (str_strip (row_get row ''Category UUID(s)''))),
                   Print (MsgMakingGet (vm_get_url b row)),
                   HttpGet (vm_get_url b row) h,
                   Print (case fst (get_reply env b h row st) of
                            None \<Rightarrow> MsgErrorGet | Some r \<Rightarrow> MsgVmETag []),
                   Print (MsgFailedToGetETag (str_strip (row_get row ''VM Name'')))] st)
              \<lparr>world := snd (get_reply env b h row st)\<rparr>)"
  using assms by (simp add: process_rows_Cons process_row_no_token)

text \<open>A GET answered with 404 and no ETag, followed by a second row.\<close>

theorem row_without_token_is_abandoned_witness:
  "match_ok (mk_row ''vm1'' ''id1'' ''OK'' ''c1,c2'') \<and>
   has_required_data (mk_row ''vm1'' ''id1'' ''OK'' ''c1,c2'') \<and>
   row_category_uuids (mk_row ''vm1'' ''id1'' ''OK'' ''c1,c2'') \<noteq> [] \<and>
   no_token (fst (get_reply script_env ''https://pc.example:9440/api'' []
      (mk_row ''vm1'' ''id1'' ''OK'' ''c1,c2'')
      (demo_state [Some \<lparr>status_code = 404, etag_header = None\<rparr>] []))) \<and>
   process_rows script_env ''https://pc.example:9440/api'' []
     [(0, mk_row ''vm1'' ''id1'' ''OK'' ''c1,c2''), (1, mk_row ''vm2'' ''id2'' ''SKIP'' ''c3'')]
     (demo_state [Some \<lparr>status_code = 404, etag_header = None\<rparr>] []) =
   \<lparr>trace = [Print (MsgProcessingVM ''vm1'' ''id1'' ''c1,c2''),
             Print (MsgMakingGet ''https://pc.example:9440/api/vmm/v4.1/ahv/config/vms/id1''),
             HttpGet ''https://pc.example:9440/api/vmm/v4.1/ahv/config/vms/id1'' [],
             Print (MsgVmETag []),
             Print (MsgFailedToGetETag ''vm1''),
             Print (MsgSkipNotOK 2 ''SKIP'')],
    sheet = demo_sheet, world = ([], [])\<rparr>"
proof -
  have m: "match_ok (mk_row ''vm1'' ''id1'' ''OK'' ''c1,c2'')"
    by (simp add: match_ok_def mk_row_def row_get_def str_strip_def isspace_def str_upper_def
          upper_codes_def codes_def)
  have r: "has_required_data (mk_row ''vm1'' ''id1'' ''OK'' ''c1,c2'')"
    by (simp add: has_required_data_def mk_row_def row_get_def str_strip_def isspace_def)
  have c: "row_category_uuids (mk_row ''vm1'' ''id1'' ''OK'' ''c1,c2'') \<noteq> []"
    by (simp add: row_category_uuids_def parse_category_uuids_def mk_row_def row_get_def
          str_strip_def isspace_def)
  have t: "no_token (fst (get_reply script_env ''https://pc.example:9440/api'' []
      (mk_row ''vm1'' ''id1'' ''OK'' ''c1,c2'')
      (demo_state [Some \<lparr>status_code = 404, etag_header = None\<rparr>] [])))"
    by (simp add: no_token_def get_reply_def script_env_simps demo_state_def headers_get_etag_def)
  from row_without_token_is_abandoned[OF m r c t, where index = 0
      and rest = "[(1, mk_row ''vm2'' ''id2'' ''SKIP'' ''c3'')]"] m r c t
  show ?thesis
    by (simp add: process_rows_def process_row_def emit_def demo_state_def mk_row_def row_get_def
          str_strip_def isspace_def str_upper_def upper_codes_def codes_def vm_get_url_def get_reply_def
          script_env_simps Let_def)
qed

text \<open>
  Claim C2, as stated, fails: the row is eligible and its read returns no token, yet the
  run never calls \<^verbatim>\<open>update_excel_status\<close> and the sheet ends as it began; the row is not
  marked FAILED.
\<close>

theorem row_without_token_is_not_marked:
  "match_ok (mk_row ''vm1'' ''id1'' ''OK'' ''c1,c2'') \<and>
   no_token (fst (get_reply script_env ''https://pc.example:9440/api''
      [(''Authorization'', ''Basic YWRtaW46c2VjcmV0'')]
      (mk_row ''vm1'' ''id1'' ''OK'' ''c1,c2'')
      (demo_state [Some \<lparr>status_code = 200, etag_header = None\<rparr>] []))) \<and>
   filter is_update
     (trace (snd (main script_env (demo_inputs [mk_row ''vm1'' ''id1'' ''OK'' ''c1,c2''])
        (demo_state [Some \<lparr>status_code = 200, etag_header = None\<rparr>] [])))) = [] \<and>
   sheet (snd (main script_env (demo_inputs [mk_row ''vm1'' ''id1'' ''OK'' ''c1,c2''])
        (demo_state [Some \<lparr>status_code = 200, etag_header = None\<rparr>] []))) = demo_sheet"
  unfolding demo_main snd_conv
  by (simp add: row_defs match_ok_def no_token_def get_reply_def)


section \<open>Selecting an image or a subnet by name\<close>

lemma find_exact_finds:
  "list_all is_image_entry items \<Longrightarrow> JObj e \<in> set items \<Longrightarrow>
   dict_get e ''name'' (JStr []) = JStr wanted \<Longrightarrow>
   \<exists>d. find_exact items wanted = Inr (Some d) \<and> JObj d \<in> set items \<and>
       dict_get d ''name'' (JStr []) = JStr wanted"
proof (induction items wanted rule: find_exact.induct)
  case (1 wanted)
  then show ?case by simp
next
  case (2 d rest wanted)
  then show ?case by (cases "dict_get d ''name'' (JStr []) = JStr wanted") auto
qed simp_all

lemma named_entry_has_name:
  "dict_get d ''name'' (JStr []) = JStr wanted \<Longrightarrow> wanted \<noteq> [] \<Longrightarrow>
   map_of d ''name'' = Some (JStr wanted)"
  by (auto simp: dict_get_def split: option.splits)

lemma small_size_does_not_overflow: "\<bar>n\<bar> < 2 ^ 64 \<Longrightarrow> \<not> division_overflows n"
proof -
  assume a: "\<bar>n\<bar> < 2 ^ 64"
  have "(2::int) ^ 64 \<le> 2 ^ 1000" by (rule power_increasing) simp_all
  moreover have "(2::int) ^ 1000 + 2 ^ 1000 \<le> 2 ^ 1054"
  proof -
    have "(2::int) ^ 1000 + 2 ^ 1000 = 2 ^ 1001" by simp
    also have "\<dots> \<le> 2 ^ 1054" by (rule power_increasing) simp_all
    finally show ?thesis .
  qed
  ultimately show ?thesis using a by (simp add: division_overflows_def)
qed

text \<open>
  The two searches can also raise. The line printed at a match reads \<^verbatim>\<open>image['name']\<close>, so
  an entry without the key \<^verbatim>\<open>name\<close>, which matches the empty wanted name, raises
  \<^verbatim>\<open>KeyError\<close>; and the size of an image is divided by \<^verbatim>\<open>1024**3\<close> as a float, which raises
  \<^verbatim>\<open>OverflowError\<close> from \<^verbatim>\<open>2**1054 - 2**1000\<close> bytes on.
\<close>

lemma nameless_entry_raises:
  "fst (search_images (JObj [(''data'', JList [JObj [(''extId'', JStr ''x'')]])]) [] st) =
     Inl (Raised KeyError) \<and>
   fst (search_networks (JObj [(''data'', JList [JObj [(''extId'', JStr ''x'')]])]) [] st) =
     Inl (Raised KeyError)"
  by (simp add: search_images_def search_networks_def found_image_def found_network_def
        dict_get_def)

lemma huge_size_raises:
  "fst (search_images
          (JObj [(''data'', JList [JObj [(''name'', JStr ''big''),
                                         (''sizeInBytes'', JInt (2 ^ 1054))]])]) ''big'' st) =
   Inl (Raised OverflowError)"
  by (simp add: search_images_def found_image_def image_entry_def dict_get_def
        division_overflows_def)

text \<open>
  Claim C9. When the inventory list has an entry whose name equals the wanted name
  exactly, \<^verbatim>\<open>find_image_by_name\<close> and \<^verbatim>\<open>find_network_by_name\<close> return the dictionary built
  from an entry of the list with exactly that name, wherever in the list the entries
  matching only without regard to case stand: the first loop runs over the whole list
  before the second starts. The wanted name is not empty, and the entries are dictionaries
  whose size is a number that the division by \<^verbatim>\<open>1024**3\<close> accepts, so that neither search
  raises.
\<close>

theorem exact_name_match_takes_precedence:
  assumes "data_items reply = Inr (Some items)"
    and "list_all is_image_entry items"
    and "JObj e \<in> set items"
    and "dict_get e ''name'' (JStr []) = JStr wanted"
    and "wanted \<noteq> []"
  shows "(\<exists>info. fst (search_images reply wanted st) = Inr (Some info) \<and>
            JObj (image_data info) \<in> set items \<and>
            dict_get (image_data info) ''name'' (JStr []) = JStr wanted \<and>
            image_entry (image_data info) = Inr info) \<and>
         (\<exists>info. fst (search_networks reply wanted st) = Inr (Some info) \<and>
            JObj (network_data info) \<in> set items \<and>
            dict_get (network_data info) ''name'' (JStr []) = JStr wanted \<and>
            network_entry (network_data info) = info)"
proof -
  from find_exact_finds[OF assms(2,3,4)] obtain d where
    d: "find_exact items wanted = Inr (Some d)" "JObj d \<in> set items"
       "dict_get d ''name'' (JStr []) = JStr wanted"
    by blast
  from named_entry_has_name[OF d(3) assms(5)]
  have nm: "map_of d ''name'' = Some (JStr wanted)" .
  from assms(2) d(2) have "is_image_entry (JObj d)"
    by (auto simp: list_all_iff)
  then obtain n where n: "number_of (dict_get d ''sizeInBytes'' (JInt 0)) = Some n"
      "\<not> division_overflows n"
    by (auto split: option.splits)
  have "fst (search_images reply wanted st) = Inr (Some
           \<lparr>image_name = dict_get d ''name'' (JStr ''Unknown''),
            image_type = dict_get d ''type'' (JStr ''Unknown''),
            size_in_bytes = n,
            image_ext_id = dict_get d ''extId'' (JStr ''Unknown''),
            image_data = d\<rparr>)"
    using assms(1) d(1) n nm by (simp add: search_images_def found_image_def image_entry_def)
  moreover have "fst (search_networks reply wanted st) = Inr (Some (network_entry d))"
    using assms(1) d(1) nm by (simp add: search_networks_def found_network_def)
  ultimately show ?thesis
    using d(2,3) n by (simp add: network_entry_def image_entry_def)
qed

text \<open>The entry \<^verbatim>\<open>win2019\<close> stands before \<^verbatim>\<open>Win2019\<close>; asked for \<^verbatim>\<open>Win2019\<close>, both
  searches return the second.\<close>

theorem exact_name_match_takes_precedence_witness:
  "data_items demo_inventory =
     Inr (Some [JObj [(''name'', JStr ''win2019''), (''extId'', JStr ''lower-case-entry'')],
                JObj [(''name'', JStr ''Win2019''), (''extId'', JStr ''exact-entry''),
                      (''sizeInBytes'', JInt 42949672960)]]) \<and>
   image_ext_id (the (projr (fst (search_images demo_inventory ''Win2019''
       \<lparr>dtrace = [], stdin = [], dworld = ()\<rparr>)))) = JStr ''exact-entry'' \<and>
   network_ext_id (the (projr (fst (search_networks demo_inventory ''Win2019''
       \<lparr>dtrace = [], stdin = [], dworld = ()\<rparr>)))) = JStr ''exact-entry''"
proof -
  let ?items = "[JObj [(''name'', JStr ''win2019''), (''extId'', JStr ''lower-case-entry'')],
                JObj [(''name'', JStr ''Win2019''), (''extId'', JStr ''exact-entry''),
                      (''sizeInBytes'', JInt 42949672960)]]"
  have a: "data_items demo_inventory = Inr (Some ?items)"
    by (simp add: demo_inventory_def)
  have b: "list_all is_image_entry ?items"
    by (simp add: dict_get_def small_size_does_not_overflow)
  have c: "JObj [(''name'', JStr ''Win2019''), (''extId'', JStr ''exact-entry''),
                 (''sizeInBytes'', JInt 42949672960)] \<in> set ?items"
    by simp
  have e: "dict_get [(''name'', JStr ''Win2019''), (''extId'', JStr ''exact-entry''),
                 (''sizeInBytes'', JInt 42949672960)] ''name'' (JStr []) = JStr ''Win2019''"
    by (simp add: dict_get_def)
  have w: "''Win2019'' \<noteq> []" by simp
  from exact_name_match_takes_precedence[OF a b c e w,
      where st = "\<lparr>dtrace = [], stdin = [], dworld = ()\<rparr>"]
  obtain i1 i2 where
      i1: "fst (search_images demo_inventory ''Win2019'' \<lparr>dtrace = [], stdin = [], dworld = ()\<rparr>)
           = Inr (Some i1)"
          "JObj (image_data i1) \<in> set ?items"
          "dict_get (image_data i1) ''name'' (JStr []) = JStr ''Win2019''"
          "image_entry (image_data i1) = Inr i1"
  and i2: "fst (search_networks demo_inventory ''Win2019'' \<lparr>dtrace = [], stdin = [], dworld = ()\<rparr>)
           = Inr (Some i2)"
          "JObj (network_data i2) \<in> set ?items"
          "dict_get (network_data i2) ''name'' (JStr []) = JStr ''Win2019''"
          "network_entry (network_data i2) = i2"
    by blast
  from i1(2,3) have d1: "image_data i1 = [(''name'', JStr ''Win2019''), (''extId'', JStr ''exact-entry''),
                      (''sizeInBytes'', JInt 42949672960)]"
    by (auto simp: dict_get_def)
  from i2(2,3) have d2: "network_data i2 = [(''name'', JStr ''Win2019''), (''extId'', JStr ''exact-entry''),
                      (''sizeInBytes'', JInt 42949672960)]"
    by (auto simp: dict_get_def)
  from i1(4) d1 have e1: "image_ext_id i1 = JStr ''exact-entry''"
    by (auto simp: image_entry_def dict_get_def split: if_splits)
  from i2(4) d2 have e2: "network_ext_id i2 = JStr ''exact-entry''"
    by (auto simp: network_entry_def dict_get_def)
  show ?thesis
    using a i1(1) i2(1) e1 e2 by simp
qed


section \<open>A missing configuration\<close>

lemma startswith_iff: "startswith s p \<longleftrightarrow> (\<exists>r. s = p @ r)"
  by (induction s p rule: startswith.induct) auto

lemma split_once_key:
  assumes "c \<in> set line" and "fst (split_once c line) = k"
  shows "startswith line (k @ [c])"
proof -
  let ?P = "\<lambda>x. x \<noteq> c"
  from assms(1) have "dropWhile ?P line \<noteq> []" by (auto simp: dropWhile_eq_Nil_conv)
  moreover have "\<not> ?P (hd (dropWhile ?P line))"
    using calculation by (rule hd_dropWhile)
  ultimately obtain r where "dropWhile ?P line = c # r"
    by (cases "dropWhile ?P line") auto
  moreover have "line = takeWhile ?P line @ dropWhile ?P line" by simp
  ultimately have "line = k @ [c] @ r"
    using assms(2) by (simp add: split_once_def)
  then show ?thesis by (auto simp: startswith_iff)
qed

lemma vars_line_other_key:
  "\<not> startswith (str_strip l) (k @ ''='') \<Longrightarrow> vars_line l d k = d k"
  using split_once_key[of "CHR ''=''" "str_strip l" k]
  by (auto simp: vars_line_def Let_def split: prod.splits)

lemma fold_vars_line_other_key:
  "\<forall>l \<in> set ls. \<not> startswith (str_strip l) (k @ ''='') \<Longrightarrow> fold vars_line ls d k = d k"
  by (induction ls arbitrary: d) (simp_all add: vars_line_other_key)

lemma key_not_written_is_missing:
  "k \<in> {''baseUrl'', ''username'', ''password''} \<Longrightarrow>
   \<forall>l \<in> set ls. \<not> startswith (str_strip l) (k @ ''='') \<Longrightarrow>
   config_missing vars_line (Some ls)"
  by (auto simp: config_missing_def Let_def fold_vars_line_other_key)

lemma check_required_keys_missing:
  "k \<in> set ks \<Longrightarrow> config k = None \<Longrightarrow> \<exists>e. check_required_keys ks config = Some e"
  by (induction ks) auto

lemma deploy_read_vars_file_missing:
  "config_missing deploy_vars_line vars_file \<Longrightarrow> isl (deploy_read_vars_file vars_file)"
proof (cases vars_file)
  case None
  then show ?thesis by (simp add: deploy_read_vars_file_def)
next
  case (Some ls)
  assume "config_missing deploy_vars_line vars_file"
  with Some obtain k where "k \<in> set [''baseUrl'', ''username'', ''password'']"
      "fold deploy_vars_line ls Map.empty k = None"
    by (auto simp: config_missing_def Let_def)
  from check_required_keys_missing[where config = "fold deploy_vars_line ls Map.empty", OF this]
  obtain e where
    "check_required_keys [''baseUrl'', ''username'', ''password'']
       (fold deploy_vars_line ls Map.empty) = Some e"
    by blast
  with Some show ?thesis
    by (simp add: deploy_read_vars_file_def Let_def del: check_required_keys.simps)
qed

text \<open>
  Claim C6. When the configuration file is absent or lacks one of \<^verbatim>\<open>baseUrl\<close>, \<^verbatim>\<open>username\<close>
  and \<^verbatim>\<open>password\<close>, \<^verbatim>\<open>main\<close> of \<^verbatim>\<open>update_categories_for_vm.py\<close> ends with \<^verbatim>\<open>sys.exit(1)\<close>
  having printed its start line and one diagnostic, and \<^verbatim>\<open>main\<close> of
  \<^verbatim>\<open>experimental/deploy_windows_vm.py\<close> ends with \<^verbatim>\<open>sys.exit(1)\<close> having printed one
  diagnostic; neither has sent a request or changed anything else.
\<close>

theorem missing_configuration_is_fatal:
  "(config_missing vars_line (vars_txt inp) \<longrightarrow>
      fst (main env inp st0) = Exit 1 \<and>
      snd (main env inp st0) =
        emit [Print MsgStarting,
              Print (if vars_txt inp = None then MsgVarsFileNotFound
                     else MsgMissingRequiredVars)] st0) \<and>
   (config_missing deploy_vars_line vars_file \<longrightarrow>
      fst (deploy_main server vm_name a vars_file st) = Some (SysExit 1) \<and>
      snd (deploy_main server vm_name a vars_file st) =
        say [Say (if do_it a then ConfigError (projl (deploy_read_vars_file vars_file))
                  else SafetyCheck)] st)"
proof (intro conjI impI)
  assume m: "config_missing vars_line (vars_txt inp)"
  then show "fst (main env inp st0) = Exit 1"
    by (auto simp: main_def config_missing_def read_vars_file_def vars_get_def Let_def
             split: option.splits)
  from m show "snd (main env inp st0) =
        emit [Print MsgStarting,
              Print (if vars_txt inp = None then MsgVarsFileNotFound
                     else MsgMissingRequiredVars)] st0"
    by (auto simp: main_def config_missing_def read_vars_file_def vars_get_def Let_def emit_emit
             split: option.splits)
next
  assume "config_missing deploy_vars_line vars_file"
  then have i: "isl (deploy_read_vars_file vars_file)"
    by (rule deploy_read_vars_file_missing)
  then show "fst (deploy_main server vm_name a vars_file st) = Some (SysExit 1)"
    by (auto simp: deploy_main_def main_setup_def isl_def ALLOW_EXECUTION_WITHOUT_DOIT_def)
  from i show "snd (deploy_main server vm_name a vars_file st) =
        say [Say (if do_it a then ConfigError (projl (deploy_read_vars_file vars_file))
                  else SafetyCheck)] st"
    by (auto simp: deploy_main_def main_setup_def isl_def ALLOW_EXECUTION_WITHOUT_DOIT_def)
qed

text \<open>A file with \<^verbatim>\<open>baseUrl\<close> and \<^verbatim>\<open>username\<close> but no \<^verbatim>\<open>password\<close>, given to both scripts.\<close>

theorem missing_configuration_is_fatal_witness:
  "config_missing vars_line
     (vars_txt ((demo_inputs [])\<lparr>vars_txt := Some [''baseUrl=https://pc.example:9440/api'', ''username=admin'']\<rparr>)) \<and>
   main script_env ((demo_inputs [])\<lparr>vars_txt := Some [''baseUrl=https://pc.example:9440/api'', ''username=admin'']\<rparr>)
     (demo_state [] []) =
   (Exit 1, \<lparr>trace = [Print MsgStarting, Print MsgMissingRequiredVars], sheet = demo_sheet,
             world = ([], [])\<rparr>) \<and>
   config_missing deploy_vars_line (Some [''baseUrl=https://pc.example:9440/api'', ''username=admin'']) \<and>
   deploy_main demo_server ''Windows-VM-20261104-120000'' demo_args
     (Some [''baseUrl=https://pc.example:9440/api'', ''username=admin'']) demo_dstate =
   (Some (SysExit 1),
    \<lparr>dtrace = [Say (ConfigError (MissingRequiredKey ''password''))], stdin = [''y''], dworld = ()\<rparr>)"
proof -
  let ?ls = "[''baseUrl=https://pc.example:9440/api'', ''username=admin'']"
  let ?inp = "(demo_inputs [])\<lparr>vars_txt := Some ?ls\<rparr>"
  have a: "config_missing vars_line (vars_txt ?inp)"
    by (simp add: config_missing_def vars_line_def str_strip_def isspace_def split_once_def Let_def)
  have b: "config_missing deploy_vars_line (Some ?ls)"
    by (simp add: config_missing_def deploy_vars_line_def str_strip_def isspace_def
          split_once_def Let_def)
  have c: "deploy_read_vars_file (Some ?ls) = Inl (MissingRequiredKey ''password'')"
    by (simp add: deploy_read_vars_file_def deploy_vars_line_def str_strip_def isspace_def
          split_once_def Let_def)
  from missing_configuration_is_fatal[where inp = ?inp and env = script_env
      and ?st0.0 = "demo_state [] []" and vars_file = "Some ?ls" and server = demo_server
      and vm_name = "''Windows-VM-20261104-120000''" and a = demo_args and st = demo_dstate]
    a b c
  show ?thesis
    by (simp add: prod_eq_iff emit_def say_def demo_state_def demo_dstate_def demo_args_def)
qed

section \<open>The dry run of the provisioning script\<close>

lemma str_upper_GET: "str_upper ''GET'' = codes ''GET''"
  by (simp add: str_upper_def upper_codes_def codes_def)

lemma str_upper_POST: "str_upper ''POST'' = codes ''POST''"
  by (simp add: str_upper_def upper_codes_def codes_def)

lemma codes_POST_GET: "codes ''POST'' \<noteq> codes ''GET''"
  by (simp add: codes_def)

lemma posts_say_Say [simp]: "posts (say (Say m # evs) st) = posts (say evs st)"
  by (simp add: posts_def say_def)

lemma posts_say_Nil [simp]: "posts (say [] st) = posts st"
  by (simp add: posts_def say_def)

lemma posts_stdin [simp]: "posts (st\<lparr>stdin := x\<rparr>) = posts st"
  by (simp add: posts_def)

lemma make_api_request_GET_posts:
  "make_api_request server ''GET'' url h d st = (r, st') \<Longrightarrow> posts st' = posts st"
  by (auto simp: make_api_request_def str_upper_GET Let_def posts_def say_def
           split: prod.splits option.splits)

lemma search_images_posts: "search_images reply wanted st = (r, st') \<Longrightarrow> posts st' = posts st"
  by (auto simp: search_images_def found_image_def split: sum.splits option.splits)

lemma search_networks_posts: "search_networks reply wanted st = (r, st') \<Longrightarrow> posts st' = posts st"
  by (auto simp: search_networks_def found_network_def split: sum.splits option.splits)

lemma find_image_by_name_posts:
  "find_image_by_name server b h wanted st = (r, st') \<Longrightarrow> posts st' = posts st"
  by (auto simp: find_image_by_name_def split: prod.splits sum.splits
           dest!: make_api_request_GET_posts search_images_posts)

lemma find_network_by_name_posts:
  "find_network_by_name server b h wanted st = (r, st') \<Longrightarrow> posts st' = posts st"
  by (auto simp: find_network_by_name_def split: prod.splits sum.splits
           dest!: make_api_request_GET_posts search_networks_posts)

lemma list_images_posts: "list_images server b h st = (r, st') \<Longrightarrow> posts st' = posts st"
  by (auto simp: list_images_def split: prod.splits sum.splits option.splits
           dest!: make_api_request_GET_posts)

lemma list_networks_posts: "list_networks server b h st = (r, st') \<Longrightarrow> posts st' = posts st"
  by (auto simp: list_networks_def split: prod.splits sum.splits option.splits
           dest!: make_api_request_GET_posts)

lemma select_loop_says:
  "select_loop items ins out = (r, rest, out') \<Longrightarrow>
   filter is_post_request out' = filter is_post_request out"
  by (induction items ins out rule: select_loop.induct)
     (auto simp: Let_def split: if_splits option.splits)

lemma posts_say_out: "posts (say out st) = posts st @ filter is_post_request out"
  by (simp add: posts_def say_def)

lemma select_from_list_posts:
  "select_from_list items t st = (r, st') \<Longrightarrow> posts st' = posts st"
  by (auto simp: select_from_list_def posts_say_out split: if_splits prod.splits sum.splits
           dest!: select_loop_says)

lemma select_image_posts: "select_image server a b h st = (r, st') \<Longrightarrow> posts st' = posts st"
  by (auto simp: select_image_def split: if_splits prod.splits sum.splits option.splits
           dest!: find_image_by_name_posts list_images_posts select_from_list_posts)

lemma select_network_posts: "select_network server a b h st = (r, st') \<Longrightarrow> posts st' = posts st"
  by (auto simp: select_network_def split: if_splits prod.splits sum.splits option.splits
           dest!: find_network_by_name_posts list_networks_posts select_from_list_posts)

lemma main_setup_posts: "main_setup server a vf st = (r, st') \<Longrightarrow> posts st' = posts st"
  by (auto simp: main_setup_def Let_def split: if_splits prod.splits sum.splits
           dest!: make_api_request_GET_posts select_image_posts select_network_posts)

lemma select_image_dry_run:
  "select_image server (a\<lparr>dry_run := b\<rparr>) base_url headers st = select_image server a base_url headers st"
  by (simp add: select_image_def)

lemma select_network_dry_run:
  "select_network server (a\<lparr>dry_run := b\<rparr>) base_url headers st = select_network server a base_url headers st"
  by (simp add: select_network_def)

lemma main_setup_dry_run: "main_setup server (a\<lparr>dry_run := b\<rparr>) vf st = main_setup server a vf st"
  unfolding main_setup_def select_image_dry_run select_network_dry_run by simp

lemma deploy_vm_posts:
  "posts (snd (deploy_vm server b h p st)) = posts st @ [Request ''POST'' (b @ ''/vmm/v4.1/ahv/config/vms'') h (Some p)]"
  by (auto simp: deploy_vm_def make_api_request_def str_upper_POST codes_POST_GET Let_def
           posts_def say_def split: prod.splits option.splits)

lemma demo_config:
  "deploy_read_vars_file demo_vars =
   Inr [''baseUrl'' \<mapsto> ''https://pc.example:9440/api'', ''username'' \<mapsto> ''admin'',
        ''password'' \<mapsto> ''secret'']"
  by (simp add: deploy_read_vars_file_def demo_vars_def deploy_vars_line_def str_strip_def
        isspace_def split_once_def Let_def)

lemma demo_auth:
  "deploy_create_auth_header ''admin'' ''secret'' = [(''Authorization'', ''Basic YWRtaW46c2VjcmV0'')]"
  by (simp add: deploy_create_auth_header_def utf8_bytes_def b64_alphabet_def)

lemma demo_setup:
  "\<not> isl (fst (main_setup demo_server demo_args demo_vars demo_dstate)) \<and>
   stdin (snd (main_setup demo_server demo_args demo_vars demo_dstate)) = [''y'']"
  by (simp add: main_setup_def demo_config demo_auth demo_args_def ALLOW_EXECUTION_WITHOUT_DOIT_def
        make_api_request_def str_upper_GET demo_server_def demo_dstate_def say_def Let_def
        select_image_def select_network_def arg_given_def find_image_by_name_def
        find_network_by_name_def search_images_def search_networks_def found_image_def
        found_network_def demo_inventory_def dict_get_def image_entry_def network_entry_def
        small_size_does_not_overflow)

text \<open>
  Claim C8. A dry run sends no POST, whatever the server, the command line, the
  configuration and the typed lines are. When the first part of \<^verbatim>\<open>main\<close> ends with a
  selection (it does not read the dry-run flag, so it is the same in both runs), the dry
  run prints \<^verbatim>\<open>create_vm_payload\<close> of the selected image and network and exits with 0; and
  the run without the flag, once confirmed with \<^verbatim>\<open>y\<close> or \<^verbatim>\<open>yes\<close>, sends exactly one POST,
  whose body is that same payload.
\<close>

theorem dry_run_builds_the_deployment_payload:
  "posts (snd (deploy_main server vm_name (a\<lparr>dry_run := True\<rparr>) vars_file st)) = posts st \<and>
   (main_setup server a vars_file st = (Inr sel, st1) \<longrightarrow>
      deploy_main server vm_name (a\<lparr>dry_run := True\<rparr>) vars_file st =
        (Some (SysExit 0),
         say [PrintPayload (create_vm_payload vm_name (selected_image sel) (selected_network sel)),
              Say DryRunCompleted] st1) \<and>
      (stdin st1 = line # rest \<and> str_lower (str_strip line) \<in> set [''y'', ''yes''] \<longrightarrow>
         posts (snd (deploy_main server vm_name (a\<lparr>dry_run := False\<rparr>) vars_file st)) =
         posts st @
         [Request ''POST'' (sel_base_url sel @ ''/vmm/v4.1/ahv/config/vms'') (sel_headers sel)
            (Some (create_vm_payload vm_name (selected_image sel) (selected_network sel)))]))"
proof (intro conjI impI)
  show "posts (snd (deploy_main server vm_name (a\<lparr>dry_run := True\<rparr>) vars_file st)) = posts st"
    by (auto simp: deploy_main_def main_setup_dry_run posts_say_out
             split: prod.splits sum.splits dest!: main_setup_posts)
next
  assume "main_setup server a vars_file st = (Inr sel, st1)"
  then show "deploy_main server vm_name (a\<lparr>dry_run := True\<rparr>) vars_file st =
        (Some (SysExit 0),
         say [PrintPayload (create_vm_payload vm_name (selected_image sel) (selected_network sel)),
              Say DryRunCompleted] st1)"
    by (simp add: deploy_main_def main_setup_dry_run)
next
  assume s: "main_setup server a vars_file st = (Inr sel, st1)"
    and c: "stdin st1 = line # rest \<and> str_lower (str_strip line) \<in> set [''y'', ''yes'']"
  let ?p = "create_vm_payload vm_name (selected_image sel) (selected_network sel)"
  let ?st2 = "st1\<lparr>stdin := rest\<rparr>"
  have p1: "posts st1 = posts st" using s by (rule main_setup_posts)
  have "posts (snd (deploy_main server vm_name (a\<lparr>dry_run := False\<rparr>) vars_file st)) =
        posts (snd (deploy_vm server (sel_base_url sel) (sel_headers sel) ?p ?st2))"
    using s c
    by (auto simp: deploy_main_def main_setup_dry_run Let_def posts_say_out
             split: prod.splits sum.splits option.splits)
  also have "\<dots> = posts ?st2 @ [Request ''POST'' (sel_base_url sel @ ''/vmm/v4.1/ahv/config/vms'')
                 (sel_headers sel) (Some ?p)]"
    by (rule deploy_vm_posts)
  finally show "posts (snd (deploy_main server vm_name (a\<lparr>dry_run := False\<rparr>) vars_file st)) =
         posts st @
         [Request ''POST'' (sel_base_url sel @ ''/vmm/v4.1/ahv/config/vms'') (sel_headers sel)
            (Some ?p)]"
    using p1 by simp
qed

text \<open>The example run: the setup selects the entry \<^verbatim>\<open>Win2019\<close> twice and leaves the typed
  \<^verbatim>\<open>y\<close> for the confirmation.\<close>

theorem dry_run_builds_the_deployment_payload_witness:
  "main_setup demo_server demo_args demo_vars demo_dstate =
     (Inr (projr (fst (main_setup demo_server demo_args demo_vars demo_dstate))),
      snd (main_setup demo_server demo_args demo_vars demo_dstate)) \<and>
   stdin (snd (main_setup demo_server demo_args demo_vars demo_dstate)) = ''y'' # [] \<and>
   str_lower (str_strip ''y'') \<in> set [''y'', ''yes''] \<and>
   posts (snd (deploy_main demo_server ''Windows-VM-20261104-120000''
                 (demo_args\<lparr>dry_run := True\<rparr>) demo_vars demo_dstate)) = [] \<and>
   deploy_main demo_server ''Windows-VM-20261104-120000'' (demo_args\<lparr>dry_run := True\<rparr>)
       demo_vars demo_dstate =
     (Some (SysExit 0),
      say [PrintPayload (create_vm_payload ''Windows-VM-20261104-120000''
             (selected_image (projr (fst (main_setup demo_server demo_args demo_vars demo_dstate))))
             (selected_network (projr (fst (main_setup demo_server demo_args demo_vars demo_dstate))))),
           Say DryRunCompleted]
        (snd (main_setup demo_server demo_args demo_vars demo_dstate))) \<and>
   posts (snd (deploy_main demo_server ''Windows-VM-20261104-120000''
                 (demo_args\<lparr>dry_run := False\<rparr>) demo_vars demo_dstate)) =
     [Request ''POST''
        (sel_base_url (projr (fst (main_setup demo_server demo_args demo_vars demo_dstate)))
           @ ''/vmm/v4.1/ahv/config/vms'')
        (sel_headers (projr (fst (main_setup demo_server demo_args demo_vars demo_dstate))))
        (Some (create_vm_payload ''Windows-VM-20261104-120000''
             (selected_image (projr (fst (main_setup demo_server demo_args demo_vars demo_dstate))))
             (selected_network (projr (fst (main_setup demo_server demo_args demo_vars demo_dstate))))))]"
proof -
  let ?m = "main_setup demo_server demo_args demo_vars demo_dstate"
  have s: "?m = (Inr (projr (fst ?m)), snd ?m)"
    using demo_setup by (cases ?m; cases "fst ?m") auto
  have i: "stdin (snd ?m) = ''y'' # []"
    using demo_setup by simp
  have y: "str_lower (str_strip ''y'') \<in> set [''y'', ''yes'']"
    by (simp add: str_lower_def lower_char_def latin1_upper_def latin1_lower_def str_strip_def isspace_def)
  have y': "str_lower (str_strip ''y'') = ''y''"
    by (simp add: str_lower_def lower_char_def latin1_upper_def latin1_lower_def str_strip_def isspace_def)
  have p0: "posts demo_dstate = []"
    by (simp add: posts_def demo_dstate_def)
  note T = dry_run_builds_the_deployment_payload[where server = demo_server
      and vm_name = "''Windows-VM-20261104-120000''" and a = demo_args and vars_file = demo_vars
      and st = demo_dstate and sel = "projr (fst ?m)" and ?st1.0 = "snd ?m" and line = "''y''"
      and rest = "[]"]
  from T have t1: "posts (snd (deploy_main demo_server ''Windows-VM-20261104-120000''
                 (demo_args\<lparr>dry_run := True\<rparr>) demo_vars demo_dstate)) = posts demo_dstate"
    by blast
  from T s have t2: "deploy_main demo_server ''Windows-VM-20261104-120000''
       (demo_args\<lparr>dry_run := True\<rparr>) demo_vars demo_dstate =
     (Some (SysExit 0),
      say [PrintPayload (create_vm_payload ''Windows-VM-20261104-120000''
             (selected_image (projr (fst ?m))) (selected_network (projr (fst ?m)))),
           Say DryRunCompleted] (snd ?m))"
    by blast
  from T s i y have t3: "posts (snd (deploy_main demo_server ''Windows-VM-20261104-120000''
                 (demo_args\<lparr>dry_run := False\<rparr>) demo_vars demo_dstate)) =
     posts demo_dstate @
     [Request ''POST'' (sel_base_url (projr (fst ?m)) @ ''/vmm/v4.1/ahv/config/vms'')
        (sel_headers (projr (fst ?m)))
        (Some (create_vm_payload ''Windows-VM-20261104-120000''
             (selected_image (projr (fst ?m))) (selected_network (projr (fst ?m)))))]"
    by blast
  show ?thesis
    by (intro conjI)
       (rule s, rule i, rule y, rule t1[unfolded p0], rule t2, rule t3[unfolded p0 append_Nil])
qed


end
